theory Spec2Isabelle
  imports Complex_Main
begin

section \<open>Python values, errors and strings\<close>

text \<open>
  The repository is two Python files: \<^verbatim>\<open>ppt_generator.py\<close> (class \<^verbatim>\<open>PPTGenerator\<close>) and
  \<^verbatim>\<open>app.py\<close> (the Streamlit form). A Python \<^verbatim>\<open>str\<close> is modelled as a HOL \<open>string\<close>; a
  \<open>char\<close> stands for one code point below 256 (the Latin-1 range), a range closed under
  every string operation the code uses. Exceptions are values of \<open>py_error\<close>; a function
  that can raise returns \<open>py_error + 'a\<close> with \<open>Inl\<close> for the exception. Every constructor
  of \<open>py_error\<close> is a subclass of \<^verbatim>\<open>Exception\<close>, so \<^verbatim>\<open>except Exception\<close> catches all of them.
\<close>

datatype py_error =
    IndexError
  | KeyError string
  | TypeError
  | AttributeError
  | ValueError
  | LibraryError string

text \<open>
  What \<^verbatim>\<open>json.loads\<close> can return, and what the code builds as literals: \<^verbatim>\<open>None\<close>, booleans,
  numbers, strings, lists and dictionaries with string keys. A dictionary is an association
  list read with \<open>map_of\<close>.
\<close>

datatype py_value =
    PNone
  | PBool bool
  | PInt int
  | PFloat rat
  | PStr string
  | PList "py_value list"
  | PDict "(string \<times> py_value) list"

text \<open>Truth value testing, as \<^verbatim>\<open>not x\<close> and \<^verbatim>\<open>if x\<close> do it.\<close>

fun truthy :: "py_value \<Rightarrow> bool" where
  "truthy PNone = False"
| "truthy (PBool b) = b"
| "truthy (PInt i) = (i \<noteq> 0)"
| "truthy (PFloat q) = (q \<noteq> 0)"
| "truthy (PStr s) = (s \<noteq> [])"
| "truthy (PList xs) = (xs \<noteq> [])"
| "truthy (PDict d) = (d \<noteq> [])"

text \<open>\<^verbatim>\<open>xs[i]\<close> on a list: negative indices count from the end, out of range raises.\<close>

definition py_index :: "'a list \<Rightarrow> int \<Rightarrow> py_error + 'a" where
  "py_index xs i =
     (if 0 \<le> i \<and> i < int (length xs) then Inr (xs ! nat i)
      else if i < 0 \<and> - int (length xs) \<le> i then Inr (xs ! nat (int (length xs) + i))
      else Inl IndexError)"

text \<open>\<^verbatim>\<open>str.isspace\<close> on one code point below 256, which is what \<^verbatim>\<open>str.strip()\<close> removes.\<close>

definition isspace :: "char \<Rightarrow> bool" where
  "isspace c =
     (let n = (of_char c :: nat)
      in (9 \<le> n \<and> n \<le> 13) \<or> (28 \<le> n \<and> n \<le> 32) \<or> n = 133 \<or> n = 160)"

definition lstrip :: "string \<Rightarrow> string" where
  "lstrip s = dropWhile isspace s"

definition rstrip :: "string \<Rightarrow> string" where
  "rstrip s = rev (dropWhile isspace (rev s))"

definition strip :: "string \<Rightarrow> string" where
  "strip s = rstrip (lstrip s)"

text \<open>\<^verbatim>\<open>str.lower\<close> on code points below 256: A-Z and the accented capitals.\<close>

definition lower_char :: "char \<Rightarrow> char" where
  "lower_char c =
     (let n = (of_char c :: nat)
      in if (65 \<le> n \<and> n \<le> 90) \<or> (192 \<le> n \<and> n \<le> 222 \<and> n \<noteq> 215)
         then char_of (n + 32) else c)"

definition lower :: "string \<Rightarrow> string" where
  "lower s = map lower_char s"

fun startswith :: "string \<Rightarrow> string \<Rightarrow> bool" where
  "startswith s [] = True"
| "startswith [] (p # ps) = False"
| "startswith (c # cs) (p # ps) = (c = p \<and> startswith cs ps)"

text \<open>\<^verbatim>\<open>sub in s\<close> for strings.\<close>

fun str_contains :: "string \<Rightarrow> string \<Rightarrow> bool" where
  "str_contains [] sub = (sub = [])"
| "str_contains (c # cs) sub = (startswith (c # cs) sub \<or> str_contains cs sub)"

text \<open>
  \<^verbatim>\<open>s.find(sub)\<close> and \<^verbatim>\<open>s.rfind(sub)\<close>: the lowest and the highest index where \<open>sub\<close> starts,
  or \<open>-1\<close>. The third argument is the index of the head of the string being scanned.
\<close>

fun find_from :: "string \<Rightarrow> string \<Rightarrow> nat \<Rightarrow> int" where
  "find_from [] sub i = (if sub = [] then int i else - 1)"
| "find_from (c # cs) sub i =
     (if startswith (c # cs) sub then int i else find_from cs sub (Suc i))"

definition find :: "string \<Rightarrow> string \<Rightarrow> int" where
  "find s sub = find_from s sub 0"

fun rfind_from :: "string \<Rightarrow> string \<Rightarrow> nat \<Rightarrow> int" where
  "rfind_from [] sub i = (if sub = [] then int i else - 1)"
| "rfind_from (c # cs) sub i =
     (let r = rfind_from cs sub (Suc i)
      in if r \<noteq> - 1 then r else if startswith (c # cs) sub then int i else - 1)"

definition rfind :: "string \<Rightarrow> string \<Rightarrow> int" where
  "rfind s sub = rfind_from s sub 0"

text \<open>\<^verbatim>\<open>s[a:b]\<close>: a negative bound counts from the end, both bounds are clipped to the string.\<close>

definition clip_index :: "nat \<Rightarrow> int \<Rightarrow> nat" where
  "clip_index n i = (if i < 0 then nat (max 0 (int n + i)) else min n (nat i))"

definition slice :: "string \<Rightarrow> int \<Rightarrow> int \<Rightarrow> string" where
  "slice s a b =
     (let lo = clip_index (length s) a; hi = clip_index (length s) b
      in take (hi - lo) (drop lo s))"

text \<open>
  \<^verbatim>\<open>s.split(sep)\<close>: the pieces between the occurrences of \<open>sep\<close>, found from the left and not
  overlapping. An empty separator raises \<^verbatim>\<open>ValueError\<close>.
\<close>

fun split_pieces :: "string \<Rightarrow> string \<Rightarrow> string list" where
  "split_pieces sep [] = [[]]"
| "split_pieces sep (c # cs) =
     (if sep \<noteq> [] \<and> startswith (c # cs) sep
      then [] # split_pieces sep (drop (length sep - 1) cs)
      else (case split_pieces sep cs of
              [] \<Rightarrow> [[c]]
            | p # ps \<Rightarrow> (c # p) # ps))"

definition split :: "string \<Rightarrow> string \<Rightarrow> py_error + string list" where
  "split s sep = (if sep = [] then Inl ValueError else Inr (split_pieces sep s))"

text \<open>\<^verbatim>\<open>sep.join(xs)\<close> and \<^verbatim>\<open>s.replace(old, new)\<close>.\<close>

fun join :: "string \<Rightarrow> string list \<Rightarrow> string" where
  "join sep [] = []"
| "join sep [x] = x"
| "join sep (x # y # ys) = x @ sep @ join sep (y # ys)"

definition replace :: "string \<Rightarrow> string \<Rightarrow> string \<Rightarrow> string" where
  "replace s old new =
     (if old = [] then new @ concat (map (\<lambda>c. c # new) s)
      else join new (split_pieces old s))"

text \<open>\<^verbatim>\<open>str(n)\<close> for a natural number, as an f-string renders it.\<close>

fun str_nat :: "nat \<Rightarrow> string" where
  "str_nat n =
     (if n < 10 then [char_of (48 + n)]
      else str_nat (n div 10) @ [char_of (48 + n mod 10)])"

section \<open>Dictionaries\<close>

text \<open>
  \<^verbatim>\<open>d.get(k, default)\<close>, \<^verbatim>\<open>d[k]\<close> and \<^verbatim>\<open>k in d\<close> on whatever value \<open>d\<close> holds: the JSON the model
  returned is not validated, so \<open>d\<close> may be a list, a string or a number, and the operation
  raises what Python raises there.
\<close>

fun py_get :: "py_value \<Rightarrow> string \<Rightarrow> py_value \<Rightarrow> py_error + py_value" where
  "py_get (PDict d) k dflt = Inr (case map_of d k of None \<Rightarrow> dflt | Some v \<Rightarrow> v)"
| "py_get _ k dflt = Inl AttributeError"

fun py_getitem :: "py_value \<Rightarrow> string \<Rightarrow> py_error + py_value" where
  "py_getitem (PDict d) k = (case map_of d k of None \<Rightarrow> Inl (KeyError k) | Some v \<Rightarrow> Inr v)"
| "py_getitem _ k = Inl TypeError"

fun py_in :: "string \<Rightarrow> py_value \<Rightarrow> py_error + bool" where
  "py_in k (PDict d) = Inr (map_of d k \<noteq> None)"
| "py_in k (PList xs) = Inr (PStr k \<in> set xs)"
| "py_in k (PStr s) = Inr (str_contains s k)"
| "py_in k _ = Inl TypeError"

text \<open>Iteration, as \<^verbatim>\<open>enumerate(x)\<close> starts it: a dictionary yields its keys, a string its characters.\<close>

fun py_iter :: "py_value \<Rightarrow> py_error + py_value list" where
  "py_iter (PList xs) = Inr xs"
| "py_iter (PDict d) = Inr (map (\<lambda>kv. PStr (fst kv)) d)"
| "py_iter (PStr s) = Inr (map (\<lambda>c. PStr [c]) s)"
| "py_iter _ = Inl TypeError"

section \<open>The generator object and the fallback content\<close>

text \<open>\<^verbatim>\<open>PPTGenerator.__init__\<close> keeps the client (made from the API key) and the model name.\<close>

record PPTGenerator =
  client_api_key :: string
  self_model_name :: string

definition fallback_colors :: "string list" where
  "fallback_colors = [''white'', ''light_blue'', ''white'', ''gradient'']"

definition title_slide :: "string \<Rightarrow> py_value" where
  "title_slide topic = PDict
     [(''slide_type'', PStr ''title''),
      (''title'', PStr topic),
      (''subtitle'', PStr ''Comprehensive Professional Presentation''),
      (''background_color'', PStr ''blue'')]"

definition section_slide :: "string \<Rightarrow> string \<Rightarrow> string \<Rightarrow> py_value" where
  "section_slide topic content_name color = PDict
     [(''slide_type'', PStr ''section''),
      (''title'', PStr content_name),
      (''content'', PList
         [PStr (''Detailed analysis of '' @ content_name @ '': '' @ topic @
                '' involves multiple components including strategic planning and execution frameworks''),
          PStr (''Key features: Core elements include '' @ lower content_name @
                '' methodology, implementation techniques, and performance metrics''),
          PStr ''Practical example: Case study from Fortune 500 company showing 35% improvement using these methods'',
          PStr (''Best practices: Industry-standard approaches for '' @ lower content_name @
                '' with measurable results''),
          PStr ''Current trends: 2024 data shows 42% adoption rate in top organizations with positive ROI'']),
      (''background_color'', PStr color)]"

definition summary_slide :: "py_value" where
  "summary_slide = PDict
     [(''slide_type'', PStr ''summary''),
      (''title'', PStr ''Conclusion & Recommendations''),
      (''content'', PList
         [PStr ''Comprehensive review of all key concepts with supporting data'',
          PStr ''Actionable 6-month implementation plan with milestones'',
          PStr ''Strategic roadmap for long-term success and scalability'',
          PStr ''Resource allocation and team requirements'',
          PStr ''Q&A and next steps for immediate action'']),
      (''background_color'', PStr ''blue'')]"

text \<open>
  The loop \<^verbatim>\<open>for i, content_name in enumerate(content_names): slides.append(...)\<close> of
  \<^verbatim>\<open>_create_fallback_content\<close>: \<open>slides\<close> is the list built so far, \<open>i\<close> the index of the next
  name. \<^verbatim>\<open>colors[i % len(colors)]\<close> is an indexing that could raise.
\<close>

fun fallback_loop :: "string \<Rightarrow> py_value list \<Rightarrow> nat \<Rightarrow> string list \<Rightarrow> py_error + py_value list" where
  "fallback_loop topic slides i [] = Inr slides"
| "fallback_loop topic slides i (content_name # rest) =
     (case py_index fallback_colors (int i mod int (length fallback_colors)) of
        Inl e \<Rightarrow> Inl e
      | Inr color \<Rightarrow>
          fallback_loop topic (slides @ [section_slide topic content_name color]) (Suc i) rest)"

definition create_fallback_content :: "PPTGenerator \<Rightarrow> string \<Rightarrow> string list \<Rightarrow> py_error + py_value" where
  "create_fallback_content self topic content_names =
     (case fallback_loop topic [title_slide topic] 0 content_names of
        Inl e \<Rightarrow> Inl e
      | Inr slides \<Rightarrow>
          Inr (PDict [(''title'', PStr topic), (''slides'', PList (slides @ [summary_slide]))]))"

section \<open>Asking the model for content\<close>

text \<open>
  What the code calls outside itself: the chat-completion endpoint, \<^verbatim>\<open>json.loads\<close>, the image
  endpoint and the temporary file it fills, the picture reader of the presentation library,
  \<^verbatim>\<open>os.unlink\<close>, the save of the document and the two clocks. Each is a function of the
  record \<open>services\<close>; a call that can raise returns \<open>py_error + 'a\<close> or names its error.
\<close>

record choice =
  message_content :: "string option"

record chat_completion =
  choices :: "choice list"

record chat_request =
  messages :: "(string \<times> string) list"
  model :: string
  temperature :: rat
  max_tokens :: nat

record http_response =
  status_code :: nat
  body :: string

record services =
  chat_completions_create :: "string \<Rightarrow> chat_request \<Rightarrow> py_error + chat_completion"
  json_loads :: "string \<Rightarrow> py_error + py_value"
  requests_get :: "string \<Rightarrow> nat \<Rightarrow> py_error + http_response"
  write_temp_file :: "string \<Rightarrow> string \<Rightarrow> py_error + string"
  add_picture_error :: "string \<Rightarrow> py_error option"
  unlink_error :: "string \<Rightarrow> py_error option"
  save_error :: "string \<Rightarrow> py_error option"
  time_time :: nat
  datetime_now :: string

definition and_then :: "'e + 'a \<Rightarrow> ('a \<Rightarrow> 'e + 'b) \<Rightarrow> 'e + 'b" where
  "and_then m f = (case m of Inl e \<Rightarrow> Inl e | Inr x \<Rightarrow> f x)"

definition newline :: string where
  "newline = [CHR 0x0A]"

definition build_prompt :: "string \<Rightarrow> string list \<Rightarrow> string" where
  "build_prompt topic content_names =
     (let content_list = join newline (map (\<lambda>name. ''- '' @ name) content_names)
      in join newline
       [''Create a comprehensive professional presentation about \"'' @ topic @ ''\" with 8-10 slides. '',
        ''Each slide should have unique, detailed content with specific information, examples, and data.'',
        '''',
        ''CONTENT SECTIONS:'',
        content_list,
        '''',
        ''For each content section, provide:'',
        ''1. Detailed explanation (30-50 words)'',
        ''2. Key features/points'',
        ''3. Real-world examples/case studies'',
        ''4. Best practices'',
        ''5. Current trends/data'',
        '''',
        ''Return ONLY valid JSON with this structure:'',
        ''{'',
        ''    \"title\": \"Presentation Title\",'',
        ''    \"slides\": ['',
        ''        {'',
        ''            \"slide_type\": \"title\",'',
        ''            \"title\": \"Main Title\",'',
        ''            \"subtitle\": \"Subtitle\",'',
        ''            \"background_color\": \"blue\"'',
        ''        },'',
        ''        {'',
        ''            \"slide_type\": \"section\",'',
        ''            \"title\": \"Section Title\",'',
        ''            \"content\": ['',
        ''                \"Detailed point 1 (30-50 words with specific information)\",'',
        ''                \"Detailed point 2 (with examples and data)\",'',
        ''                \"Detailed point 3 (with practical applications)\",'',
        ''                \"Detailed point 4 (with best practices)\",'',
        ''                \"Detailed point 5 (with current trends)\"'',
        ''            ],'',
        ''            \"background_color\": \"white\"'',
        ''        },'',
        ''        {'',
        ''            \"slide_type\": \"summary\",'',
        ''            \"title\": \"Key Takeaways\",'',
        ''            \"content\": ['',
        ''                \"Comprehensive summary point 1\",'',
        ''                \"Actionable recommendation 2\",'',
        ''                \"Strategic insight 3\"'',
        ''            ],'',
        ''            \"background_color\": \"light_blue\"'',
        ''        }'',
        ''    ]'',
        ''}'',
        '''',
        ''Ensure each bullet point is detailed, unique, and contains substantial information.''])"

definition build_request :: "PPTGenerator \<Rightarrow> string \<Rightarrow> string list \<Rightarrow> chat_request" where
  "build_request self topic content_names =
     \<lparr>messages =
        [(''system'', ''You are an expert presentation designer. Provide detailed, unique content for each slide. Return only valid JSON.''),
         (''user'', build_prompt topic content_names)],
      model = self_model_name self,
      temperature = 7 / 10,
      max_tokens = 4000\<rparr>"

text \<open>
  The clean-up of the response text, lines 89 to 100 of \<^verbatim>\<open>ppt_generator.py\<close>: trim; when the
  text starts with a labelled or an unlabelled fence take what stands between that marker and
  the next fence, trimmed; then, when both braces occur, cut from the first opening brace to
  the last closing brace.
\<close>

definition between_fences :: "string \<Rightarrow> string \<Rightarrow> py_error + string" where
  "between_fences content marker =
     and_then (split content marker) (\<lambda>parts.
     and_then (py_index parts 1) (\<lambda>inner.
     and_then (split inner ''```'') (\<lambda>pieces.
     and_then (py_index pieces 0) (\<lambda>block. Inr (strip block)))))"

definition cut_braces :: "string \<Rightarrow> string" where
  "cut_braces content =
     (let start_brace = find content ''{''; end_brace = rfind content ''}''
      in if start_brace \<noteq> - 1 \<and> end_brace \<noteq> - 1
         then slice content start_brace (end_brace + 1) else content)"

definition extract_json :: "string \<Rightarrow> py_error + string" where
  "extract_json raw =
     (let content = strip raw
      in and_then
           (if startswith content ''```json'' then between_fences content ''```json''
            else if startswith content ''```'' then between_fences content ''```''
            else Inr content)
           (\<lambda>content. Inr (cut_braces content)))"

text \<open>
  The body of the \<^verbatim>\<open>try\<close> of \<^verbatim>\<open>generate_presentation_content\<close>: the call, the first choice's
  text (\<^verbatim>\<open>None.strip()\<close> raises), the clean-up, the parse and the structural check
  \<^verbatim>\<open>'slides' not in parsed_content or not parsed_content['slides']\<close>.
\<close>

definition request_content :: "services \<Rightarrow> PPTGenerator \<Rightarrow> string \<Rightarrow> string list \<Rightarrow> py_error + py_value" where
  "request_content env self topic content_names =
     and_then (chat_completions_create env (client_api_key self)
                 (build_request self topic content_names)) (\<lambda>response.
     and_then (py_index (choices response) 0) (\<lambda>first.
     and_then (case message_content first of
                 None \<Rightarrow> Inl AttributeError
               | Some raw \<Rightarrow> Inr raw) (\<lambda>raw.
     and_then (extract_json raw) (\<lambda>content.
     and_then (json_loads env content) (\<lambda>parsed_content.
     and_then (py_in ''slides'' parsed_content) (\<lambda>present.
       if \<not> present then Inl ValueError
       else and_then (py_getitem parsed_content ''slides'') (\<lambda>slides.
         if \<not> truthy slides then Inl ValueError else Inr parsed_content)))))))"

text \<open>What the program prints, by the statement that prints it.\<close>

datatype printed =
    ErrorGeneratingContent py_error
  | ImageError py_error
  | ErrorCreatingSlide nat py_error

text \<open>
  \<^verbatim>\<open>generate_presentation_content\<close>: the \<^verbatim>\<open>except Exception\<close> prints the error and returns the
  fallback content. The result is paired with what was printed.
\<close>

definition generate_presentation_content ::
  "services \<Rightarrow> PPTGenerator \<Rightarrow> string \<Rightarrow> string list \<Rightarrow> (py_error + py_value) \<times> printed list" where
  "generate_presentation_content env self topic content_names =
     (case request_content env self topic content_names of
        Inr parsed_content \<Rightarrow> (Inr parsed_content, [])
      | Inl e \<Rightarrow> (create_fallback_content self topic content_names, [ErrorGeneratingContent e]))"

section \<open>The presentation document\<close>

text \<open>
  The part of the presentation library the code drives. Lengths are English Metric Units:
  \<^verbatim>\<open>Inches(x)\<close> is \<^verbatim>\<open>int(x * 914400)\<close> and \<^verbatim>\<open>Pt(n)\<close> is \<^verbatim>\<open>int(n * 12700)\<close>. A slide keeps its
  background fill, its placeholders (index 0 is the title) and its pictures; a placeholder
  keeps its box, where the code sets one, and its paragraphs; a paragraph keeps the text and
  the formatting the code writes. \<open>None\<close> is a property the code has not set.
\<close>

type_synonym rgb = "nat \<times> nat \<times> nat"

definition Inches :: "rat \<Rightarrow> int" where
  "Inches x = \<lfloor>x * 914400\<rfloor>"

definition Pt :: "nat \<Rightarrow> int" where
  "Pt n = int n * 12700"

datatype fill = Inherited | Solid "rgb option"

datatype pp_align = CENTER

record para =
  para_text :: string
  para_level :: nat
  font_size :: "int option"
  font_bold :: "bool option"
  font_color :: "rgb option"
  alignment :: "pp_align option"
  space_after :: "int option"
  space_before :: "int option"

record shape =
  shape_left :: "int option"
  shape_top :: "int option"
  shape_width :: "int option"
  shape_height :: "int option"
  word_wrap :: "bool option"
  paragraphs :: "para list"

record picture =
  image_file :: string
  pic_left :: int
  pic_top :: int
  pic_width :: int
  pic_height :: int

record slide =
  background :: fill
  placeholders :: "shape list"
  pictures :: "picture list"

text \<open>
  A layout is known by the number of placeholders a new slide takes from it. The default
  template that \<^verbatim>\<open>Presentation()\<close> opens has eleven layouts; layout 0 (title slide) and layout 1
  (title and content) give a title and one more placeholder each.
\<close>

record presentation =
  slide_width :: int
  slide_height :: int
  slide_layouts :: "nat list"
  pres_slides :: "slide list"

definition empty_paragraph :: para where
  "empty_paragraph =
     \<lparr>para_text = [], para_level = 0, font_size = None, font_bold = None, font_color = None,
      alignment = None, space_after = None, space_before = None\<rparr>"

definition empty_shape :: shape where
  "empty_shape =
     \<lparr>shape_left = None, shape_top = None, shape_width = None, shape_height = None,
      word_wrap = None, paragraphs = [empty_paragraph]\<rparr>"

definition default_presentation :: presentation where
  "default_presentation =
     \<lparr>slide_width = 9144000, slide_height = 6858000,
      slide_layouts = [2, 2, 2, 3, 5, 1, 0, 3, 3, 2, 2], pres_slides = []\<rparr>"

text \<open>
  The state the methods work on: the document under construction (the object bound to
  \<^verbatim>\<open>presentation\<close> in \<^verbatim>\<open>create_powerpoint\<close>), what has been printed, and the files saved. A
  method is a function from the state to its outcome and the state it leaves; a change made
  before an exception stays made.
\<close>

record world =
  document :: presentation
  stdout :: "printed list"
  saved_files :: "(string \<times> presentation) list"

type_synonym 'a cmd = "world \<Rightarrow> (py_error + 'a) \<times> world"

definition unit_cmd :: "'a \<Rightarrow> 'a cmd" where
  "unit_cmd x = (\<lambda>w. (Inr x, w))"

definition raise :: "py_error \<Rightarrow> 'a cmd" where
  "raise e = (\<lambda>w. (Inl e, w))"

definition lift :: "py_error + 'a \<Rightarrow> 'a cmd" where
  "lift r = (\<lambda>w. (r, w))"

definition bind_cmd :: "'a cmd \<Rightarrow> ('a \<Rightarrow> 'b cmd) \<Rightarrow> 'b cmd" where
  "bind_cmd m f = (\<lambda>w. case m w of (Inl e, w') \<Rightarrow> (Inl e, w') | (Inr x, w') \<Rightarrow> f x w')"

definition try_except :: "'a cmd \<Rightarrow> (py_error \<Rightarrow> 'a cmd) \<Rightarrow> 'a cmd" where
  "try_except m handler =
     (\<lambda>w. case m w of (Inl e, w') \<Rightarrow> handler e w' | (Inr x, w') \<Rightarrow> (Inr x, w'))"

definition modify :: "(world \<Rightarrow> world) \<Rightarrow> unit cmd" where
  "modify f = (\<lambda>w. (Inr (), f w))"

definition print_line :: "printed \<Rightarrow> unit cmd" where
  "print_line p = modify (\<lambda>w. w\<lparr>stdout := stdout w @ [p]\<rparr>)"

text \<open>The library calls. The slide a builder works on is the one it has just added, the last.\<close>

definition layout_at :: "nat \<Rightarrow> nat cmd" where
  "layout_at k = (\<lambda>w. (py_index (slide_layouts (document w)) (int k), w))"

definition add_slide :: "nat \<Rightarrow> unit cmd" where
  "add_slide layout = modify (\<lambda>w. w\<lparr>document := (document w)
     \<lparr>pres_slides := pres_slides (document w) @
        [\<lparr>background = Inherited, placeholders = replicate layout empty_shape, pictures = []\<rparr>]\<rparr>\<rparr>)"

definition update_last :: "('a \<Rightarrow> 'a) \<Rightarrow> 'a list \<Rightarrow> 'a list" where
  "update_last f xs = (if xs = [] then [] else butlast xs @ [f (last xs)])"

definition update_slide :: "(slide \<Rightarrow> slide) \<Rightarrow> unit cmd" where
  "update_slide f = modify (\<lambda>w. w\<lparr>document := (document w)
     \<lparr>pres_slides := update_last f (pres_slides (document w))\<rparr>\<rparr>)"

definition current_slide :: "slide cmd" where
  "current_slide = (\<lambda>w. (py_index (pres_slides (document w)) (- 1), w))"

definition update_shape :: "nat \<Rightarrow> (shape \<Rightarrow> shape) \<Rightarrow> unit cmd" where
  "update_shape k f = update_slide (\<lambda>s. s\<lparr>placeholders := (placeholders s)[k := f (placeholders s ! k)]\<rparr>)"

text \<open>\<^verbatim>\<open>fill.solid()\<close> and \<^verbatim>\<open>fill.fore_color.rgb = c\<close> on the slide's background.\<close>

definition fill_solid :: "unit cmd" where
  "fill_solid = update_slide (\<lambda>s. s\<lparr>background := Solid None\<rparr>)"

definition set_fore_color :: "rgb \<Rightarrow> unit cmd" where
  "set_fore_color c = update_slide (\<lambda>s. s\<lparr>background := Solid (Some c)\<rparr>)"

text \<open>
  \<^verbatim>\<open>shape.text = v\<close>: the library takes a string only, and starts a paragraph at every line
  feed. \<^verbatim>\<open>slide.shapes.title\<close> is \<^verbatim>\<open>None\<close> on a slide with no placeholder.
\<close>

definition set_shape_text :: "nat \<Rightarrow> py_value \<Rightarrow> unit cmd" where
  "set_shape_text k v =
     (case v of
        PStr s \<Rightarrow> update_shape k (\<lambda>sh. sh\<lparr>paragraphs :=
                    map (\<lambda>t. empty_paragraph\<lparr>para_text := t\<rparr>) (split_pieces newline s)\<rparr>)
      | _ \<Rightarrow> raise TypeError)"

definition set_title_text :: "py_value \<Rightarrow> unit cmd" where
  "set_title_text v =
     bind_cmd current_slide (\<lambda>s.
       if placeholders s = [] then raise AttributeError else set_shape_text 0 v)"

definition update_first_paragraph :: "nat \<Rightarrow> (para \<Rightarrow> para) \<Rightarrow> unit cmd" where
  "update_first_paragraph k f =
     update_shape k (\<lambda>sh. sh\<lparr>paragraphs := (paragraphs sh)[0 := f (paragraphs sh ! 0)]\<rparr>)"

text \<open>\<^verbatim>\<open>text_frame.clear()\<close>, \<^verbatim>\<open>text_frame.add_paragraph()\<close>, and \<^verbatim>\<open>p.text = v\<close> with the settings
  that follow it, on the paragraph bound to \<^verbatim>\<open>p\<close>: the last one.\<close>

definition text_frame_clear :: "nat \<Rightarrow> unit cmd" where
  "text_frame_clear k = update_shape k (\<lambda>sh. sh\<lparr>paragraphs := [empty_paragraph]\<rparr>)"

definition add_paragraph :: "nat \<Rightarrow> unit cmd" where
  "add_paragraph k = update_shape k (\<lambda>sh. sh\<lparr>paragraphs := paragraphs sh @ [empty_paragraph]\<rparr>)"

definition update_paragraph :: "nat \<Rightarrow> (para \<Rightarrow> para) \<Rightarrow> unit cmd" where
  "update_paragraph k f = update_shape k (\<lambda>sh. sh\<lparr>paragraphs := update_last f (paragraphs sh)\<rparr>)"

definition set_paragraph_text :: "nat \<Rightarrow> py_value \<Rightarrow> unit cmd" where
  "set_paragraph_text k v =
     (case v of
        PStr s \<Rightarrow> update_paragraph k (\<lambda>p. p\<lparr>para_text := s\<rparr>)
      | _ \<Rightarrow> raise TypeError)"

section \<open>Rendering\<close>

definition background_colors :: "(string \<times> rgb) list" where
  "background_colors =
     [(''blue'', (0, 84, 147)),
      (''light_blue'', (220, 240, 255)),
      (''white'', (255, 255, 255)),
      (''dark'', (34, 40, 49)),
      (''gradient'', (240, 248, 255))]"

text \<open>
  \<^verbatim>\<open>get_background_color\<close> is \<^verbatim>\<open>colors.get(color_name, colors['white'])\<close>: the default is looked
  up first; a list or a dictionary is not hashable and raises; any other value that is not a
  key gives the default.
\<close>

definition get_background_color :: "PPTGenerator \<Rightarrow> py_value \<Rightarrow> py_error + rgb" where
  "get_background_color self color_name =
     and_then (case map_of background_colors ''white'' of
                 None \<Rightarrow> Inl (KeyError ''white'')
               | Some c \<Rightarrow> Inr c) (\<lambda>dflt.
       case color_name of
         PList _ \<Rightarrow> Inl TypeError
       | PDict _ \<Rightarrow> Inl TypeError
       | PStr s \<Rightarrow> Inr (case map_of background_colors s of None \<Rightarrow> dflt | Some c \<Rightarrow> c)
       | _ \<Rightarrow> Inr dflt)"

text \<open>The four lines under \<^verbatim>\<open># Background\<close> of each builder, with the builder's default colour.\<close>

definition paint_background :: "PPTGenerator \<Rightarrow> py_value \<Rightarrow> string \<Rightarrow> unit cmd" where
  "paint_background self slide_data dflt =
     bind_cmd fill_solid (\<lambda>_.
     bind_cmd (lift (py_get slide_data ''background_color'' (PStr dflt))) (\<lambda>color_name.
     bind_cmd (lift (get_background_color self color_name)) (\<lambda>c.
     set_fore_color c)))"

definition create_title_slide :: "PPTGenerator \<Rightarrow> py_value \<Rightarrow> unit cmd" where
  "create_title_slide self slide_data =
     bind_cmd (layout_at 0) (\<lambda>slide_layout.
     bind_cmd (add_slide slide_layout) (\<lambda>_.
     bind_cmd (paint_background self slide_data ''blue'') (\<lambda>_.
     bind_cmd (lift (py_getitem slide_data ''title'')) (\<lambda>title.
     bind_cmd (set_title_text title) (\<lambda>_.
     bind_cmd (update_first_paragraph 0 (\<lambda>p. p\<lparr>font_size := Some (Pt 44), font_bold := Some True,
                 font_color := Some (255, 255, 255), alignment := Some CENTER\<rparr>)) (\<lambda>_.
     bind_cmd current_slide (\<lambda>s.
       if 1 < length (placeholders s) then
         bind_cmd (lift (py_get slide_data ''subtitle'' (PStr []))) (\<lambda>subtitle.
         bind_cmd (set_shape_text 1 subtitle) (\<lambda>_.
         update_first_paragraph 1 (\<lambda>p. p\<lparr>font_size := Some (Pt 24),
           font_color := Some (255, 255, 255), alignment := Some CENTER\<rparr>)))
       else unit_cmd ())))))))"

text \<open>
  \<^verbatim>\<open>download_image\<close>: any exception is swallowed by the bare \<^verbatim>\<open>except\<close>, and the result is the
  name of the temporary file or \<^verbatim>\<open>None\<close>.
\<close>

definition download_image :: "services \<Rightarrow> PPTGenerator \<Rightarrow> nat \<Rightarrow> string option" where
  "download_image env self slide_index =
     (let url = ''https://source.unsplash.com/600x400/?'' @ str_nat slide_index @ '',business,tech,meeting''
      in case requests_get env url 10 of
           Inl e \<Rightarrow> None
         | Inr response \<Rightarrow>
             if status_code response = 200 then
               (case write_temp_file env ''.jpg'' (body response) of
                  Inl e \<Rightarrow> None
                | Inr name \<Rightarrow> Some name)
             else None)"

text \<open>The loop over \<^verbatim>\<open>enumerate(slide_data.get('content', []))\<close> of a content slide.\<close>

fun content_bullets :: "nat \<Rightarrow> py_value list \<Rightarrow> unit cmd" where
  "content_bullets i [] = unit_cmd ()"
| "content_bullets i (bullet_point # rest) =
     bind_cmd (if i = 0 then unit_cmd () else add_paragraph 1) (\<lambda>_.
     bind_cmd (set_paragraph_text 1 bullet_point) (\<lambda>_.
     bind_cmd (update_paragraph 1 (\<lambda>p. p\<lparr>para_level := 0, font_size := Some (Pt 18),
                 font_color := Some (51, 51, 51), space_after := Some (Pt 12),
                 space_before := Some (Pt 4)\<rparr>)) (\<lambda>_.
     content_bullets (Suc i) rest)))"

definition add_picture :: "services \<Rightarrow> string \<Rightarrow> int \<Rightarrow> int \<Rightarrow> int \<Rightarrow> int \<Rightarrow> unit cmd" where
  "add_picture env image_path pos_left pos_top width height =
     (case add_picture_error env image_path of
        Some e \<Rightarrow> raise e
      | None \<Rightarrow> update_slide (\<lambda>s. s\<lparr>pictures := pictures s @
          [\<lparr>image_file = image_path, pic_left = pos_left, pic_top = pos_top,
            pic_width = width, pic_height = height\<rparr>]\<rparr>))"

definition os_unlink :: "services \<Rightarrow> string \<Rightarrow> unit cmd" where
  "os_unlink env path = (case unlink_error env path of Some e \<Rightarrow> raise e | None \<Rightarrow> unit_cmd ())"

definition create_content_slide :: "services \<Rightarrow> PPTGenerator \<Rightarrow> py_value \<Rightarrow> nat \<Rightarrow> unit cmd" where
  "create_content_slide env self slide_data slide_index =
     bind_cmd (layout_at 1) (\<lambda>slide_layout.
     bind_cmd (add_slide slide_layout) (\<lambda>_.
     bind_cmd (paint_background self slide_data ''white'') (\<lambda>_.
     bind_cmd (lift (py_getitem slide_data ''title'')) (\<lambda>title.
     bind_cmd (set_title_text title) (\<lambda>_.
     bind_cmd (update_first_paragraph 0 (\<lambda>p. p\<lparr>font_size := Some (Pt 32), font_bold := Some True,
                 font_color := Some (0, 0, 0)\<rparr>)) (\<lambda>_.
     bind_cmd current_slide (\<lambda>s.
     bind_cmd
       (if 1 < length (placeholders s) then
          bind_cmd (update_shape 1 (\<lambda>sh. sh\<lparr>shape_left := Some (Inches (1 / 2)),
                      shape_top := Some (Inches (18 / 10)), shape_width := Some (Inches 6),
                      shape_height := Some (Inches (45 / 10))\<rparr>)) (\<lambda>_.
          bind_cmd (text_frame_clear 1) (\<lambda>_.
          bind_cmd (update_shape 1 (\<lambda>sh. sh\<lparr>word_wrap := Some True\<rparr>)) (\<lambda>_.
          bind_cmd (lift (py_get slide_data ''content'' (PList []))) (\<lambda>content.
          bind_cmd (lift (py_iter content)) (\<lambda>bullets.
          content_bullets 0 bullets)))))
        else unit_cmd ()) (\<lambda>_.
       case download_image env self slide_index of
         None \<Rightarrow> unit_cmd ()
       | Some image_path \<Rightarrow>
           if image_path = [] then unit_cmd ()
           else try_except
                  (bind_cmd (add_picture env image_path (Inches 7) (Inches 2)
                               (Inches (25 / 10)) (Inches 2)) (\<lambda>_.
                   os_unlink env image_path))
                  (\<lambda>e. print_line (ImageError e))))))))))"

text \<open>The loop of a summary slide: the first bullet is bold and in the accent colour.\<close>

fun summary_bullets :: "nat \<Rightarrow> py_value list \<Rightarrow> unit cmd" where
  "summary_bullets i [] = unit_cmd ()"
| "summary_bullets i (bullet_point # rest) =
     bind_cmd (if i = 0 then unit_cmd () else add_paragraph 1) (\<lambda>_.
     bind_cmd (set_paragraph_text 1 bullet_point) (\<lambda>_.
     bind_cmd (update_paragraph 1 (\<lambda>p. p\<lparr>para_level := 0, font_size := Some (Pt 20),
                 font_bold := Some (i = 0),
                 font_color := Some (if i = 0 then (0, 84, 147) else (51, 51, 51)),
                 space_after := Some (Pt 14)\<rparr>)) (\<lambda>_.
     summary_bullets (Suc i) rest)))"

definition create_summary_slide :: "PPTGenerator \<Rightarrow> py_value \<Rightarrow> unit cmd" where
  "create_summary_slide self slide_data =
     bind_cmd (layout_at 1) (\<lambda>slide_layout.
     bind_cmd (add_slide slide_layout) (\<lambda>_.
     bind_cmd (paint_background self slide_data ''light_blue'') (\<lambda>_.
     bind_cmd (lift (py_getitem slide_data ''title'')) (\<lambda>title.
     bind_cmd (set_title_text title) (\<lambda>_.
     bind_cmd (update_first_paragraph 0 (\<lambda>p. p\<lparr>font_size := Some (Pt 32), font_bold := Some True,
                 font_color := Some (0, 0, 0)\<rparr>)) (\<lambda>_.
     bind_cmd current_slide (\<lambda>s.
       if 1 < length (placeholders s) then
         bind_cmd (update_shape 1 (\<lambda>sh. sh\<lparr>shape_left := Some (Inches 1),
                     shape_top := Some (Inches (18 / 10)), shape_width := Some (Inches 8),
                     shape_height := Some (Inches (45 / 10))\<rparr>)) (\<lambda>_.
         bind_cmd (text_frame_clear 1) (\<lambda>_.
         bind_cmd (lift (py_get slide_data ''content'' (PList []))) (\<lambda>content.
         bind_cmd (lift (py_iter content)) (\<lambda>bullets.
         summary_bullets 0 bullets))))
       else unit_cmd ())))))))"

text \<open>\<^verbatim>\<open>create_slide\<close>: the dispatch on \<^verbatim>\<open>slide_data.get('slide_type', 'section')\<close>.\<close>

definition create_slide :: "services \<Rightarrow> PPTGenerator \<Rightarrow> py_value \<Rightarrow> nat \<Rightarrow> unit cmd" where
  "create_slide env self slide_data slide_index =
     bind_cmd (lift (py_get slide_data ''slide_type'' (PStr ''section''))) (\<lambda>slide_type.
       if slide_type = PStr ''title'' then create_title_slide self slide_data
       else if slide_type = PStr ''summary'' then create_summary_slide self slide_data
       else create_content_slide env self slide_data slide_index)"

text \<open>
  The loop of \<^verbatim>\<open>create_powerpoint\<close>: each descriptor is rendered inside its own \<^verbatim>\<open>try\<close>, the
  \<^verbatim>\<open>except Exception\<close> prints the slide's number and the error, and the loop goes on.
\<close>

fun slide_loop :: "services \<Rightarrow> PPTGenerator \<Rightarrow> nat \<Rightarrow> py_value list \<Rightarrow> unit cmd" where
  "slide_loop env self i [] = unit_cmd ()"
| "slide_loop env self i (slide_data # rest) =
     bind_cmd (try_except (create_slide env self slide_data i)
                 (\<lambda>e. print_line (ErrorCreatingSlide (i + 1) e))) (\<lambda>_.
     slide_loop env self (Suc i) rest)"

definition save :: "services \<Rightarrow> string \<Rightarrow> unit cmd" where
  "save env output_path =
     (case save_error env output_path of
        Some e \<Rightarrow> raise e
      | None \<Rightarrow> modify (\<lambda>w. w\<lparr>saved_files := (output_path, document w) # saved_files w\<rparr>))"

definition create_powerpoint :: "services \<Rightarrow> PPTGenerator \<Rightarrow> py_value \<Rightarrow> string \<Rightarrow> unit cmd" where
  "create_powerpoint env self presentation_data output_path =
     bind_cmd (modify (\<lambda>w. w\<lparr>document := default_presentation\<rparr>)) (\<lambda>_.
     bind_cmd (modify (\<lambda>w. w\<lparr>document := (document w)\<lparr>slide_width := Inches 10\<rparr>\<rparr>)) (\<lambda>_.
     bind_cmd (modify (\<lambda>w. w\<lparr>document := (document w)\<lparr>slide_height := Inches (75 / 10)\<rparr>\<rparr>)) (\<lambda>_.
     bind_cmd (lift (py_getitem presentation_data ''slides'')) (\<lambda>slides.
     bind_cmd (lift (py_iter slides)) (\<lambda>descriptors.
     bind_cmd (slide_loop env self 0 descriptors) (\<lambda>_.
     save env output_path))))))"

text \<open>\<^verbatim>\<open>create_presentation\<close>: content, then the file name when none was given, then the deck.\<close>

definition create_presentation ::
  "services \<Rightarrow> PPTGenerator \<Rightarrow> string \<Rightarrow> string list \<Rightarrow> string option \<Rightarrow> string cmd" where
  "create_presentation env self topic content_names output_file =
     bind_cmd (\<lambda>w. case generate_presentation_content env self topic content_names of
                      (r, out) \<Rightarrow> (r, w\<lparr>stdout := stdout w @ out\<rparr>)) (\<lambda>presentation_data.
       let named = ''professional_'' @ replace topic '' '' ''_'' @ ''_'' @
                   str_nat (time_time env) @ ''.pptx'';
           output_file = (case output_file of
                            None \<Rightarrow> named
                          | Some f \<Rightarrow> if f = [] then named else f)
       in bind_cmd (create_powerpoint env self presentation_data output_file) (\<lambda>_.
          unit_cmd output_file))"

section \<open>The form\<close>

text \<open>
  \<^verbatim>\<open>app.py\<close>: the session state, the validation of the inputs, the submit button and
  \<^verbatim>\<open>generate_presentation\<close>. \<open>shown_errors\<close> are the errors passed to \<^verbatim>\<open>st.error\<close>.
\<close>

record session_state =
  presentation_generated :: bool
  session_content_sections :: "string list"
  generating :: bool
  generated_file_path :: "string option"

record app =
  session :: session_state
  shown_errors :: "py_error list"
  machine :: world

definition generate_presentation ::
  "services \<Rightarrow> string \<Rightarrow> string list \<Rightarrow> string \<Rightarrow> string \<Rightarrow> app \<Rightarrow> string option \<times> app" where
  "generate_presentation env topic content_sections api_key model_name a =
     (let a = a\<lparr>session := (session a)\<lparr>generating := True\<rparr>\<rparr>;
          generator = \<lparr>client_api_key = api_key, self_model_name = model_name\<rparr>;
          timestamp = datetime_now env;
          output_filename = ''professional_'' @ replace topic '' '' ''_'' @ ''_'' @ timestamp @ ''.pptx''
      in case create_presentation env generator topic content_sections (Some output_filename)
                (machine a) of
           (Inr output_path, w) \<Rightarrow>
             (Some output_path,
              a\<lparr>machine := w,
                session := (session a)\<lparr>presentation_generated := True,
                  generated_file_path := Some output_path, generating := False\<rparr>\<rparr>)
         | (Inl e, w) \<Rightarrow>
             (None,
              a\<lparr>machine := w,
                session := (session a)\<lparr>generating := False\<rparr>,
                shown_errors := shown_errors a @ [e]\<rparr>))"

text \<open>
  \<^verbatim>\<open>is_valid\<close> of \<^verbatim>\<open>main\<close>, read as a truth value (an empty string is false), and the
  \<^verbatim>\<open>disabled\<close> argument of the submit button.
\<close>

definition is_valid :: "string \<Rightarrow> string \<Rightarrow> string list \<Rightarrow> bool" where
  "is_valid topic api_key content_sections =
     (topic \<noteq> [] \<and> 3 \<le> length (strip topic) \<and>
      api_key \<noteq> [] \<and> 10 \<le> length (strip api_key) \<and>
      list_all (\<lambda>s. strip s \<noteq> []) content_sections)"

definition submit_disabled :: "session_state \<Rightarrow> string \<Rightarrow> string \<Rightarrow> string list \<Rightarrow> bool" where
  "submit_disabled st topic api_key content_sections =
     (\<not> is_valid topic api_key content_sections \<or> generating st)"

text \<open>The number the download section shows as \<^verbatim>\<open>Total Slides\<close>.\<close>

definition total_slides_metric :: "string list \<Rightarrow> nat" where
  "total_slides_metric content_sections = length content_sections + 2"

text \<open>Reading a field of a slide descriptor, for the statements below.\<close>

definition field :: "py_value \<Rightarrow> string \<Rightarrow> py_value option" where
  "field d k = (case d of PDict kvs \<Rightarrow> map_of kvs k | _ \<Rightarrow> None)"

section \<open>Closed forms and sample inputs\<close>

text \<open>The section slides the fallback loop appends, starting at index \<open>i\<close>.\<close>

fun section_slides :: "string \<Rightarrow> nat \<Rightarrow> string list \<Rightarrow> py_value list" where
  "section_slides topic i [] = []"
| "section_slides topic i (n # ns) =
     section_slide topic n (fallback_colors ! (i mod 4)) # section_slides topic (Suc i) ns"

text \<open>
  Two settings of the outside world for the closed instances below: one where the network is
  down, and one where the model answers with a given text that \<^verbatim>\<open>json.loads\<close> reads as a given
  value (anything else is a decode error).
\<close>

definition offline_services :: services where
  "offline_services =
     \<lparr>chat_completions_create = (\<lambda>key request. Inl (LibraryError ''APIConnectionError'')),
      json_loads = (\<lambda>s. Inl (LibraryError ''JSONDecodeError'')),
      requests_get = (\<lambda>url timeout. Inl (LibraryError ''ConnectionError'')),
      write_temp_file = (\<lambda>suffix content. Inl (LibraryError ''OSError'')),
      add_picture_error = (\<lambda>path. None),
      unlink_error = (\<lambda>path. None),
      save_error = (\<lambda>path. None),
      time_time = 1700000000,
      datetime_now = ''20240101_120000''\<rparr>"

definition scripted_services :: "string \<Rightarrow> py_value \<Rightarrow> services" where
  "scripted_services reply parsed =
     offline_services
       \<lparr>chat_completions_create :=
          (\<lambda>key request. Inr \<lparr>choices = [\<lparr>message_content = Some reply\<rparr>]\<rparr>),
        json_loads := (\<lambda>s. if s = reply then Inr parsed else Inl (LibraryError ''JSONDecodeError''))\<rparr>"

definition sample_generator :: PPTGenerator where
  "sample_generator =
     \<lparr>client_api_key = ''gsk_0123456789'', self_model_name = ''llama-3.1-8b-instant''\<rparr>"

definition sample_sections :: "string list" where
  "sample_sections = [''Overview'', ''Threats'', ''Defenses'']"

definition empty_world :: world where
  "empty_world = \<lparr>document = default_presentation, stdout = [], saved_files = []\<rparr>"

text \<open>
  Replies of the model: a small payload, and one whose text mentions the fence marker inside
  a JSON string.
\<close>

definition sample_payload :: string where
  "sample_payload = ''{\"slides\": [{\"slide_type\": \"title\", \"title\": \"Cloud Security\"}]}''"

definition fence_payload :: string where
  "fence_payload = ''{\"slides\": [\"Use ``` to open a code block\"]}''"

text \<open>A reply that is no JSON at all, with a parser that rejects it, and a reply whose slide
  list is empty.\<close>

definition no_deck_reply :: string where
  "no_deck_reply = ''Sorry, no deck today.''"

definition no_slides_reply :: string where
  "no_slides_reply = ''{\"title\": \"Cloud Security\", \"slides\": []}''"

definition deaf_services :: services where
  "deaf_services = (scripted_services no_deck_reply PNone)
     \<lparr>json_loads := (\<lambda>s. Inl (LibraryError ''JSONDecodeError''))\<rparr>"

text \<open>A disk that refuses the file.\<close>

definition readonly_services :: services where
  "readonly_services = offline_services\<lparr>save_error := (\<lambda>path. Some (LibraryError ''PermissionError''))\<rparr>"


definition mixed_deck :: py_value where
  "mixed_deck = PDict [(''title'', PStr ''Cloud Security''),
     (''slides'', PList [PDict [(''slide_type'', PStr ''title'')],
                         PStr ''Threats'',
                         PDict [(''title'', PStr ''Defenses'')]])]"

definition short_deck :: py_value where
  "short_deck = PDict [(''slides'',
     PList [PDict [(''slide_type'', PStr ''title''), (''title'', PStr ''Cloud Security'')]])]"

definition is_dict :: "py_value \<Rightarrow> bool" where
  "is_dict v = (case v of PDict d \<Rightarrow> True | _ \<Rightarrow> False)"

text \<open>
  What the rendering of one slide may change of the state besides the slide itself and the
  printed lines: nothing. \<open>frame\<close> collects the page size, the layouts, the number of slides
  and the saved files; a command that \<open>keeps\<close> the frame leaves them as they are.
\<close>

definition frame :: "world \<Rightarrow> int \<times> int \<times> nat list \<times> nat \<times> (string \<times> presentation) list" where
  "frame w = (slide_width (document w), slide_height (document w), slide_layouts (document w),
              length (pres_slides (document w)), saved_files w)"

definition keeps :: "'a cmd \<Rightarrow> bool" where
  "keeps m = (\<forall>w. frame (snd (m w)) = frame w)"

text \<open>The session before the button is pressed.\<close>

definition sample_app :: app where
  "sample_app =
     \<lparr>session = \<lparr>presentation_generated = False, session_content_sections = sample_sections,
                  generating = False, generated_file_path = None\<rparr>,
      shown_errors = [], machine = empty_world\<rparr>"

section \<open>The fallback content\<close>

lemma py_index_colors: "py_index fallback_colors (int i mod int (length fallback_colors)) = Inr (fallback_colors ! (i mod 4))"
  by (simp add: py_index_def fallback_colors_def Let_def nat_mod_distrib flip: zmod_int)

lemma fallback_loop_eq: "fallback_loop topic slides i names = Inr (slides @ section_slides topic i names)"
  by (induction names arbitrary: slides i) (simp_all add: py_index_colors)

lemma length_section_slides: "length (section_slides topic i names) = length names"
  by (induction names arbitrary: i) simp_all

lemma nth_section_slides:
  "k < length names \<Longrightarrow>
   section_slides topic i names ! k = section_slide topic (names ! k) (fallback_colors ! ((i + k) mod 4))"
proof (induction names arbitrary: i k)
  case Nil
  then show ?case by simp
next
  case (Cons n ns)
  show ?case
  proof (cases k)
    case 0
    then show ?thesis by simp
  next
    case (Suc j)
    with Cons.prems have "j < length ns" by simp
    from Cons.IH [OF this, of "Suc i"] Suc show ?thesis by simp
  qed
qed

lemma create_fallback_content_eq:
  "create_fallback_content self topic names =
   Inr (PDict [(''title'', PStr topic),
               (''slides'', PList (title_slide topic # section_slides topic 0 names @ [summary_slide]))])"
  by (simp add: create_fallback_content_def fallback_loop_eq)

lemma field_title_slide:
  "field (title_slide topic) ''slide_type'' = Some (PStr ''title'')"
  "field (title_slide topic) ''subtitle'' = Some (PStr ''Comprehensive Professional Presentation'')"
  by (simp_all add: field_def title_slide_def)

lemma field_section_slide:
  "field (section_slide topic n c) ''slide_type'' = Some (PStr ''section'')"
  "field (section_slide topic n c) ''title'' = Some (PStr n)"
  by (simp_all add: field_def section_slide_def)

lemma field_summary_slide:
  "field summary_slide ''slide_type'' = Some (PStr ''summary'')"
  "field summary_slide ''title'' = Some (PStr ''Conclusion & Recommendations'')"
  by (simp_all add: field_def summary_slide_def)

text \<open>
  Claim C2. For every valid request (a topic of at least three characters, three to ten
  section names that are not blank) \<^verbatim>\<open>_create_fallback_content\<close> returns, without raising,
  \<open>length names + 2\<close> slide descriptors: descriptor 0 has type \<open>title\<close> and the fixed subtitle,
  descriptors 1 to \<open>length names\<close> have type \<open>section\<close> and the section names as titles, in
  order, and the last descriptor has type \<open>summary\<close> and the title
  \<open>Conclusion & Recommendations\<close>. (\<open>create_fallback_content_eq\<close> above gives the same for every
  topic and every list of names.)
\<close>

theorem fallback_content_shape:
  assumes "3 \<le> length topic" and "3 \<le> length names" and "length names \<le> 10"
    and "\<forall>n \<in> set names. strip n \<noteq> []"
  shows "\<exists>slides.
     create_fallback_content self topic names =
       Inr (PDict [(''title'', PStr topic), (''slides'', PList slides)]) \<and>
     length slides = length names + 2 \<and>
     field (slides ! 0) ''slide_type'' = Some (PStr ''title'') \<and>
     field (slides ! 0) ''subtitle'' = Some (PStr ''Comprehensive Professional Presentation'') \<and>
     (\<forall>i < length names.
        field (slides ! (i + 1)) ''slide_type'' = Some (PStr ''section'') \<and>
        field (slides ! (i + 1)) ''title'' = Some (PStr (names ! i))) \<and>
     field (slides ! (length names + 1)) ''slide_type'' = Some (PStr ''summary'') \<and>
     field (slides ! (length names + 1)) ''title'' = Some (PStr ''Conclusion & Recommendations'')"
proof -
  let ?secs = "section_slides topic 0 names"
  let ?slides = "title_slide topic # ?secs @ [summary_slide]"
  have len: "length ?secs = length names" by (rule length_section_slides)
  have mid: "\<forall>i < length names.
        field (?slides ! (i + 1)) ''slide_type'' = Some (PStr ''section'') \<and>
        field (?slides ! (i + 1)) ''title'' = Some (PStr (names ! i))"
    by (simp add: nth_append len nth_section_slides field_section_slide)
  have lst: "?slides ! (length names + 1) = summary_slide"
    by (simp add: nth_append len)
  show ?thesis
    apply (rule exI [of _ ?slides])
    apply (intro conjI)
          apply (rule create_fallback_content_eq)
         apply (simp add: len)
        apply (simp add: field_title_slide)
       apply (simp add: field_title_slide)
      apply (rule mid)
     apply (simp only: lst field_summary_slide)
    apply (simp only: lst field_summary_slide)
    done
qed

text \<open>The request of the specification's end-to-end scenario.\<close>

theorem fallback_content_shape_witness:
  "\<exists>slides.
     create_fallback_content sample_generator
       ''Cloud Security'' [''Overview'', ''Threats'', ''Defenses''] =
       Inr (PDict [(''title'', PStr ''Cloud Security''), (''slides'', PList slides)]) \<and>
     length slides = 5 \<and>
     field (slides ! 0) ''slide_type'' = Some (PStr ''title'') \<and>
     field (slides ! 0) ''subtitle'' = Some (PStr ''Comprehensive Professional Presentation'') \<and>
     field (slides ! 1) ''title'' = Some (PStr ''Overview'') \<and>
     field (slides ! 2) ''title'' = Some (PStr ''Threats'') \<and>
     field (slides ! 3) ''title'' = Some (PStr ''Defenses'') \<and>
     field (slides ! 4) ''slide_type'' = Some (PStr ''summary'') \<and>
     field (slides ! 4) ''title'' = Some (PStr ''Conclusion & Recommendations'')"
proof -
  let ?names = "[''Overview'', ''Threats'', ''Defenses'']"
  let ?self = "sample_generator"
  have blank: "\<forall>n \<in> set ?names. strip n \<noteq> []"
    by (simp add: strip_def lstrip_def rstrip_def isspace_def)
  have "3 \<le> length ''Cloud Security''" and "3 \<le> length ?names" and "length ?names \<le> 10"
    by simp_all
  from fallback_content_shape [OF this blank, of ?self]
  obtain slides where
    a: "create_fallback_content ?self ''Cloud Security'' ?names =
        Inr (PDict [(''title'', PStr ''Cloud Security''), (''slides'', PList slides)])"
    and b: "length slides = length ?names + 2"
    and c: "field (slides ! 0) ''slide_type'' = Some (PStr ''title'')"
    and d: "field (slides ! 0) ''subtitle'' = Some (PStr ''Comprehensive Professional Presentation'')"
    and e: "\<forall>i < length ?names.
        field (slides ! (i + 1)) ''slide_type'' = Some (PStr ''section'') \<and>
        field (slides ! (i + 1)) ''title'' = Some (PStr (?names ! i))"
    and f: "field (slides ! (length ?names + 1)) ''slide_type'' = Some (PStr ''summary'')"
    and g: "field (slides ! (length ?names + 1)) ''title'' = Some (PStr ''Conclusion & Recommendations'')"
    by blast
  from e [rule_format, of 0] have e0: "field (slides ! 1) ''title'' = Some (PStr ''Overview'')"
    by simp
  from e [rule_format, of 1] have e1: "field (slides ! 2) ''title'' = Some (PStr ''Threats'')"
    by (simp add: eval_nat_numeral)
  from e [rule_format, of 2] have e2: "field (slides ! 3) ''title'' = Some (PStr ''Defenses'')"
    by (simp add: eval_nat_numeral)
  from b have b': "length slides = 5" by simp
  from f have f': "field (slides ! 4) ''slide_type'' = Some (PStr ''summary'')"
    by (simp add: eval_nat_numeral)
  from g have g': "field (slides ! 4) ''title'' = Some (PStr ''Conclusion & Recommendations'')"
    by (simp add: eval_nat_numeral)
  from a b' c d e0 e1 e2 f' g' show ?thesis by blast
qed

text \<open>
  Claim C8. The fallback content is a function of the topic and the section list alone: two
  calls with the same topic and the same sections return equal structures, whichever
  generator objects (API key, model name) they are made on; nothing else is read.
\<close>

theorem fallback_content_deterministic:
  "create_fallback_content self1 topic names = create_fallback_content self2 topic names"
  by (simp add: create_fallback_content_def)

theorem fallback_content_deterministic_witness:
  "create_fallback_content sample_generator ''Cloud Security'' [''Overview'', ''Threats'', ''Defenses''] =
   create_fallback_content \<lparr>client_api_key = ''another key'', self_model_name = ''another model''\<rparr>
     ''Cloud Security'' [''Overview'', ''Threats'', ''Defenses'']"
  by (rule fallback_content_deterministic)

section \<open>Extracting the JSON text from the reply\<close>

subsection \<open>strip\<close>

lemma lstrip_append:
  "s \<noteq> [] \<Longrightarrow> \<not> isspace (hd s) \<Longrightarrow> lstrip (a @ s) = lstrip a @ s"
  by (cases s) (auto simp: lstrip_def dropWhile_append)

lemma rstrip_append:
  "s \<noteq> [] \<Longrightarrow> \<not> isspace (last s) \<Longrightarrow> rstrip (s @ b) = s @ rstrip b"
proof -
  assume s: "s \<noteq> []" and l: "\<not> isspace (last s)"
  from s l have "dropWhile isspace (rev s) = rev s"
    by (cases s rule: rev_cases) auto
  then show ?thesis
    by (auto simp: rstrip_def dropWhile_append)
qed

lemma strip_around:
  assumes "s \<noteq> []" "\<not> isspace (hd s)" "\<not> isspace (last s)"
  shows "strip (a @ s @ b) = lstrip a @ s @ rstrip b"
proof -
  have "lstrip (a @ s @ b) = lstrip a @ s @ b"
    using lstrip_append [of "s @ b" a] assms by simp
  moreover have "rstrip (lstrip a @ s @ b) = (lstrip a @ s) @ rstrip b"
    using rstrip_append [of "lstrip a @ s" b] assms by simp
  ultimately show ?thesis by (simp add: strip_def)
qed

lemma lstrip_spaces: "\<forall>c \<in> set a. isspace c \<Longrightarrow> lstrip a = []"
  by (simp add: lstrip_def)

lemma strip_after_spaces:
  assumes "\<forall>c \<in> set lead. isspace c" "s \<noteq> []" "\<not> isspace (hd s)" "\<not> isspace (last s)"
  shows "strip (lead @ s @ trail) = s @ rstrip trail"
  using strip_around [OF assms(2-4), of lead trail] assms(1) by (simp add: lstrip_spaces)

lemma isspace_not:
  "isspace c \<Longrightarrow> c \<noteq> CHR ''`'' \<and> c \<noteq> CHR ''{'' \<and> c \<noteq> CHR ''}'' \<and> c \<noteq> CHR ''j''"
  by (auto simp: isspace_def)

subsection \<open>find, rfind and the cut between the braces\<close>

lemma find_from_skip: "x \<notin> set a \<Longrightarrow> find_from (a @ x # s) [x] i = int (i + length a)"
  by (induction a arbitrary: i) auto

lemma rfind_from_none: "x \<notin> set b \<Longrightarrow> rfind_from b [x] i = - 1"
  by (induction b arbitrary: i) (auto simp: Let_def)

lemma rfind_from_last: "x \<notin> set b \<Longrightarrow> rfind_from (s @ x # b) [x] i = int (i + length s)"
  by (induction s arbitrary: i) (auto simp: Let_def rfind_from_none)

lemma cut_braces_payload:
  assumes "p \<noteq> []" "hd p = CHR ''{''" "last p = CHR ''}''"
    and "CHR ''{'' \<notin> set a" "CHR ''}'' \<notin> set b"
  shows "cut_braces (a @ p @ b) = p"
proof -
  from assms(1,2) obtain q where q: "p = CHR ''{'' # q"
    by (cases p) auto
  with assms(3) have "q \<noteq> []" and "last q = CHR ''}''"
    by (auto split: if_splits)
  then have "q = butlast q @ [CHR ''}'']"
    by (metis append_butlast_last_id)
  with q obtain m where p: "p = CHR ''{'' # m @ [CHR ''}'']"
    by blast
  have f: "find (a @ p @ b) ''{'' = int (length a)"
    using find_from_skip [OF assms(4), of "m @ [CHR ''}''] @ b" 0] by (simp add: find_def p)
  have r: "rfind (a @ p @ b) ''}'' = int (length a + length m + 1)"
    using rfind_from_last [OF assms(5), of "a @ CHR ''{'' # m" 0] by (simp add: rfind_def p)
  show ?thesis
    by (simp add: cut_braces_def f r slice_def clip_index_def Let_def) (simp add: p)
qed

subsection \<open>startswith and the membership test\<close>

lemma startswith_append_self: "startswith (sep @ r) sep"
  by (induction sep) auto

lemma startswith_json_fence: "startswith s ''```json'' \<Longrightarrow> startswith s ''```''"
  by (cases s; cases "tl s"; cases "tl (tl s)") auto

lemma startswith_append: "startswith a sep \<Longrightarrow> startswith (a @ t) sep"
  by (induction a sep rule: startswith.induct) auto

lemma startswith_short:
  "startswith (a @ b) s \<Longrightarrow> \<not> startswith a s \<Longrightarrow> set a \<subseteq> set s \<and> b \<noteq> [] \<and> hd b \<in> set s"
proof (induction a s rule: startswith.induct)
  case (1 s)
  then show ?case by simp
next
  case (2 p ps)
  then show ?case by (cases b) auto
next
  case (3 c cs p ps)
  then show ?case by auto
qed

lemma startswith_decompose: "startswith a s \<Longrightarrow> \<exists>t. a = s @ t"
  by (induction a s rule: startswith.induct) auto

lemma str_contains_empty: "str_contains s []"
  by (cases s) simp_all

lemma str_contains_drop: "i < length a \<Longrightarrow> startswith (drop i a) sep \<Longrightarrow> str_contains a sep"
proof (induction a arbitrary: i)
  case Nil
  then show ?case by simp
next
  case (Cons c a)
  show ?case
  proof (cases i)
    case 0
    with Cons.prems show ?thesis by simp
  next
    case (Suc j)
    show ?thesis
    proof (cases "j < length a")
      case True
      with Cons.IH [of j] Cons.prems Suc show ?thesis by simp
    next
      case False
      with Cons.prems Suc show ?thesis by simp
    qed
  qed
qed

lemma str_contains_append_right: "str_contains b sep \<Longrightarrow> str_contains (a @ b) sep"
  by (induction a) simp_all

lemma str_contains_append_left: "str_contains a sep \<Longrightarrow> str_contains (a @ b) sep"
proof (induction a)
  case Nil
  then show ?case by (simp add: str_contains_empty)
next
  case (Cons c a)
  then show ?case using startswith_append [of "c # a" sep b] by auto
qed

subsection \<open>The first piece of a split\<close>

lemma split_pieces_nonempty: "split_pieces sep s \<noteq> []"
  by (induction s) (auto split: list.splits)

lemma split_pieces_self:
  "sep \<noteq> [] \<Longrightarrow> split_pieces sep (sep @ r) = [] # split_pieces sep r"
  by (cases sep) (auto simp: startswith_append_self)

lemma hd_split_pieces_Cons:
  "\<not> (sep \<noteq> [] \<and> startswith (c # cs) sep) \<Longrightarrow>
   hd (split_pieces sep (c # cs)) = c # hd (split_pieces sep cs)"
  using split_pieces_nonempty [of sep cs] by (auto split: list.splits)

lemma hd_split_pieces_prefix: "\<exists>t. s = hd (split_pieces sep s) @ t"
proof (induction s)
  case Nil
  show ?case by simp
next
  case (Cons c cs)
  show ?case
  proof (cases "sep \<noteq> [] \<and> startswith (c # cs) sep")
    case True
    then show ?thesis by simp
  next
    case False
    from hd_split_pieces_Cons [OF False] Cons.IH show ?thesis by auto
  qed
qed

lemma hd_split_pieces_no_sep:
  assumes "sep \<noteq> []"
  shows "\<not> str_contains (hd (split_pieces sep s)) sep"
proof (induction s)
  case Nil
  from assms show ?case by simp
next
  case (Cons c cs)
  show ?case
  proof (cases "startswith (c # cs) sep")
    case True
    with assms show ?thesis by simp
  next
    case False
    then have h: "hd (split_pieces sep (c # cs)) = c # hd (split_pieces sep cs)"
      by (intro hd_split_pieces_Cons) simp
    obtain t where t: "cs = hd (split_pieces sep cs) @ t"
      using hd_split_pieces_prefix by blast
    have "\<not> startswith (c # hd (split_pieces sep cs)) sep"
    proof
      assume "startswith (c # hd (split_pieces sep cs)) sep"
      from startswith_append [OF this, of t] t False show False by simp
    qed
    with Cons.IH show ?thesis unfolding h by simp
  qed
qed

lemma hd_split_pieces_keeps:
  "\<forall>i < length x. \<not> startswith (drop i (x @ y)) sep \<Longrightarrow>
   \<exists>u. hd (split_pieces sep (x @ y)) = x @ u"
proof (induction x)
  case Nil
  show ?case by simp
next
  case (Cons c x)
  from Cons.prems [rule_format, of 0] have n: "\<not> startswith (c # x @ y) sep" by simp
  have "\<forall>i < length x. \<not> startswith (drop i (x @ y)) sep"
  proof (intro allI impI)
    fix i assume "i < length x"
    with Cons.prems [rule_format, of "Suc i"] show "\<not> startswith (drop i (x @ y)) sep" by simp
  qed
  from Cons.IH [OF this] obtain u where u: "hd (split_pieces sep (x @ y)) = x @ u" ..
  from n have "hd (split_pieces sep (c # x @ y)) = c # hd (split_pieces sep (x @ y))"
    by (intro hd_split_pieces_Cons) simp
  with u show ?case by simp
qed

subsection \<open>The fenced branches\<close>

lemma no_fence_before_last:
  assumes "a \<noteq> []" "\<not> startswith a ''```''" "last a \<noteq> CHR ''`''"
  shows "\<not> startswith (a @ r) ''```''"
proof (cases a)
  case Nil
  with assms show ?thesis by simp
next
  case a1: (Cons x t)
  show ?thesis
  proof (cases t)
    case Nil
    with a1 assms show ?thesis by auto
  next
    case a2: (Cons y u)
    show ?thesis
    proof (cases u)
      case Nil
      with a1 a2 assms show ?thesis by auto
    next
      case (Cons z v)
      with a1 a2 assms show ?thesis by auto
    qed
  qed
qed

lemma no_fence_before_hd:
  assumes "a \<noteq> []" "\<not> startswith a ''```''" "r \<noteq> []" "hd r \<noteq> CHR ''`''"
  shows "\<not> startswith (a @ r) ''```''"
proof -
  from assms(3,4) obtain c r' where r: "r = c # r'" "c \<noteq> CHR ''`''"
    by (cases r) auto
  show ?thesis
  proof (cases a)
    case Nil
    with assms show ?thesis by simp
  next
    case a1: (Cons x t)
    show ?thesis
    proof (cases t)
      case Nil
      with a1 r show ?thesis by auto
    next
      case a2: (Cons y u)
      show ?thesis
      proof (cases u)
        case Nil
        with a1 a2 r show ?thesis by auto
      next
        case (Cons z v)
        with a1 a2 assms show ?thesis by auto
      qed
    qed
  qed
qed

text \<open>No fence starts inside the text before the payload or inside the payload.\<close>

lemma no_fence_within:
  assumes p: "p \<noteq> []" "hd p = CHR ''{''" "last p = CHR ''}''"
    and nf: "\<not> str_contains w1 ''```''" "\<not> str_contains p ''```''"
    and i: "i < length (w1 @ p)"
  shows "\<not> startswith (drop i ((w1 @ p) @ y)) ''```''"
proof (cases "i < length w1")
  case True
  then have a: "drop i w1 \<noteq> []" by simp
  have b: "\<not> startswith (drop i w1) ''```''"
    using str_contains_drop [OF True] nf(1) by blast
  have c: "p @ y \<noteq> []" "hd (p @ y) \<noteq> CHR ''`''"
    using p by simp_all
  have "drop i ((w1 @ p) @ y) = drop i w1 @ (p @ y)"
    using True by simp
  with no_fence_before_hd [OF a b c] show ?thesis by simp
next
  case False
  define j where "j = i - length w1"
  from False i have j: "j < length p" by (simp add: j_def)
  then have a: "drop j p \<noteq> []" by simp
  have b: "\<not> startswith (drop j p) ''```''"
    using str_contains_drop [OF j] nf(2) by blast
  have c: "last (drop j p) \<noteq> CHR ''`''"
    using j p by simp
  have "drop i ((w1 @ p) @ y) = drop j p @ y"
    using False j by (simp add: j_def)
  with no_fence_before_last [OF a b c] show ?thesis by simp
qed

text \<open>
  What the two splits of a fenced branch keep of \<open>w1 @ p @ w2 @ fence @ trail\<close>, the text after
  the opening marker: the payload with what stands before it, and after it a text without a
  closing brace.
\<close>

lemma fenced_block:
  assumes p: "p \<noteq> []" "hd p = CHR ''{''" "last p = CHR ''}''"
    and nf: "\<not> str_contains w1 ''```''" "\<not> str_contains p ''```''"
    and w2: "CHR ''}'' \<notin> set w2"
    and mk: "\<And>s. startswith s marker \<Longrightarrow> startswith s ''```''"
  shows "\<exists>u. hd (split_pieces ''```'' (hd (split_pieces marker (w1 @ p @ w2 @ ''```'' @ trail)))) =
           w1 @ p @ u \<and> CHR ''}'' \<notin> set u"
proof -
  define f :: string where "f = ''```''"
  define x where "x = w1 @ p"
  define y where "y = w2 @ f @ trail"
  have f3: "f \<noteq> []" by (simp add: f_def)
  have in_x: "\<not> startswith (drop i (x @ z)) f" if "i < length x" for i z
    using no_fence_within [OF p nf, of i z] that by (simp add: x_def f_def)
  have "\<forall>i < length x. \<not> startswith (drop i (x @ y)) marker"
    using in_x mk f_def by blast
  from hd_split_pieces_keeps [OF this] obtain u1
    where u1: "hd (split_pieces marker (x @ y)) = x @ u1" ..
  obtain t1 where t1: "x @ y = (x @ u1) @ t1"
    using hd_split_pieces_prefix [of "x @ y" marker] u1 by auto
  have "\<forall>i < length x. \<not> startswith (drop i (x @ u1)) f"
    using in_x by blast
  from hd_split_pieces_keeps [OF this] obtain u
    where u: "hd (split_pieces f (x @ u1)) = x @ u" ..
  obtain t2 where t2: "x @ u1 = (x @ u) @ t2"
    using hd_split_pieces_prefix [of "x @ u1" f] u by auto
  have "\<not> str_contains (x @ u) f"
    using hd_split_pieces_no_sep [OF f3, of "x @ u1"] u by simp
  then have nu: "\<not> str_contains u f"
    using str_contains_append_right by blast
  from t1 t2 have "u @ (t2 @ t1) = (w2 @ f) @ trail"
    by (simp add: y_def)
  then obtain us where "u = (w2 @ f) @ us \<or> u @ us = w2 @ f"
    unfolding append_eq_append_conv2 by blast
  then have "set u \<subseteq> set (w2 @ f)"
  proof
    assume "u = (w2 @ f) @ us"
    moreover have "str_contains ((w2 @ f) @ us) f"
      by (intro str_contains_append_left str_contains_append_right) (simp add: f_def)
    ultimately show ?thesis using nu by simp
  next
    assume "u @ us = w2 @ f"
    then have "set u \<union> set us = set (w2 @ f)" by (metis set_append)
    then show ?thesis by blast
  qed
  with w2 have "CHR ''}'' \<notin> set u" by (auto simp: f_def)
  with u u1 show ?thesis
    unfolding x_def y_def f_def by (intro exI [of _ u]) simp
qed

lemma between_fences_marker:
  assumes "marker \<noteq> []"
  shows "between_fences (marker @ rest) marker =
         Inr (strip (hd (split_pieces ''```'' (hd (split_pieces marker rest)))))"
proof -
  obtain h t where 1: "split_pieces marker rest = h # t"
    using split_pieces_nonempty [of marker rest] by (cases "split_pieces marker rest") auto
  obtain b bs where 2: "split_pieces ''```'' h = b # bs"
    using split_pieces_nonempty [of "''```''" h] by (cases "split_pieces ''```'' h") auto
  have 0: "split_pieces marker (marker @ rest) = [] # h # t"
    using split_pieces_self [OF assms, of rest] 1 by simp
  show ?thesis
    unfolding between_fences_def
    using assms by (simp add: split_def and_then_def py_index_def 0 1 2 del: split_pieces.simps append.simps)
qed

lemma extract_json_fenced:
  assumes p: "p \<noteq> []" "hd p = CHR ''{''" "last p = CHR ''}''"
    and nf: "\<not> str_contains w1 ''```''" "\<not> str_contains p ''```''"
    and br: "CHR ''{'' \<notin> set w1" "CHR ''}'' \<notin> set w2"
    and sp: "\<forall>c \<in> set lead. isspace c"
    and mk: "marker = ''```json'' \<or> marker = ''```'' \<and> \<not> startswith (w1 @ p) ''json''"
  shows "extract_json (lead @ marker @ w1 @ p @ w2 @ ''```'' @ trail) = Inr p"
proof -
  define rest where "rest = w1 @ p @ w2 @ ''```'' @ rstrip trail"
  define m where "m = marker @ w1 @ p @ w2 @ ''```''"
  have mne: "marker \<noteq> []" using mk by auto
  have mf: "startswith s ''```''" if "startswith s marker" for s
    using mk that startswith_json_fence by auto
  have m: "m \<noteq> []" "\<not> isspace (hd m)" "\<not> isspace (last m)"
    using mk by (auto simp: m_def isspace_def)
  have eq: "lead @ marker @ w1 @ p @ w2 @ ''```'' @ trail = lead @ m @ trail"
    by (simp add: m_def)
  have s: "strip (lead @ marker @ w1 @ p @ w2 @ ''```'' @ trail) = marker @ rest"
    unfolding eq strip_after_spaces [OF sp m] by (simp add: m_def rest_def)
  from fenced_block [OF p nf br(2) mf, of marker "rstrip trail"] obtain u
    where u: "hd (split_pieces ''```'' (hd (split_pieces marker rest))) = w1 @ p @ u"
      and nu: "CHR ''}'' \<notin> set u"
    unfolding rest_def by blast
  have bt: "between_fences (marker @ rest) marker = Inr (strip (w1 @ p @ u))"
    unfolding between_fences_marker [OF mne] u ..
  have e: "\<not> isspace (hd p)" "\<not> isspace (last p)"
    using p isspace_not by auto
  have st: "strip (w1 @ p @ u) = lstrip w1 @ p @ rstrip u"
    by (rule strip_around [OF p(1) e])
  have "set (lstrip w1) \<subseteq> set w1"
    unfolding lstrip_def by (rule set_dropWhileD [THEN subsetI])
  with br have l: "CHR ''{'' \<notin> set (lstrip w1)" by blast
  have "set (rstrip u) \<subseteq> set u"
    unfolding rstrip_def using set_dropWhileD [of _ isspace "rev u"] by auto
  with nu have r: "CHR ''}'' \<notin> set (rstrip u)" by blast
  have cb: "cut_braces (strip (w1 @ p @ u)) = p"
    unfolding st by (rule cut_braces_payload [OF p l r])
  from mk show ?thesis
  proof
    assume j: "marker = ''```json''"
    have sw: "startswith (marker @ rest) ''```json''"
      unfolding j by (rule startswith_append_self)
    show ?thesis
      unfolding extract_json_def s Let_def
      using sw bt cb by (simp only: j if_True and_then_def sum.case)
  next
    assume j: "marker = ''```'' \<and> \<not> startswith (w1 @ p) ''json''"
    have "\<not> startswith rest ''json''"
    proof
      assume "startswith rest ''json''"
      then have "startswith ((w1 @ p) @ w2 @ ''```'' @ rstrip trail) ''json''"
        by (simp add: rest_def)
      from startswith_short [OF this] j have "set (w1 @ p) \<subseteq> set ''json''" by blast
      moreover have "CHR ''{'' \<in> set (w1 @ p)"
        using p by (cases p) auto
      ultimately show False by auto
    qed
    then have nj: "\<not> startswith (marker @ rest) ''```json''"
      using j by simp
    have sw: "startswith (marker @ rest) ''```''"
      using j startswith_append_self [of "''```''" rest] by simp
    show ?thesis
      unfolding extract_json_def s Let_def
      using sw nj bt cb j by (simp only: if_True if_False and_then_def sum.case)
  qed
qed

lemma extract_json_labelled_any:
  assumes p: "p \<noteq> []" "hd p = CHR ''{''" "last p = CHR ''}''"
    and nf: "\<not> str_contains w1 ''```''" "\<not> str_contains p ''```''"
    and br: "CHR ''{'' \<notin> set w1" "CHR ''}'' \<notin> set w2"
    and sp: "\<forall>c \<in> set lead. isspace c"
  shows "extract_json (lead @ ''```json'' @ w1 @ p @ w2 @ ''```'' @ trail) = Inr p"
  by (rule extract_json_fenced [OF p nf br sp]) simp

lemma extract_json_plain_any:
  assumes p: "p \<noteq> []" "hd p = CHR ''{''" "last p = CHR ''}''"
    and nf: "\<not> str_contains w1 ''```''" "\<not> str_contains p ''```''"
    and br: "CHR ''{'' \<notin> set w1" "CHR ''}'' \<notin> set w2"
    and sp: "\<forall>c \<in> set lead. isspace c"
  shows "extract_json (lead @ ''```'' @ w1 @ p @ w2 @ ''```'' @ trail) = Inr p"
proof (cases "startswith (w1 @ p) ''json''")
  case False
  show ?thesis
    by (rule extract_json_fenced [OF p nf br sp]) (simp add: False)
next
  case True
  have "startswith w1 ''json''"
  proof (rule ccontr)
    assume "\<not> startswith w1 ''json''"
    from startswith_short [OF True this] p show False by auto
  qed
  then obtain w where w: "w1 = ''json'' @ w"
    using startswith_decompose by blast
  have nw: "\<not> str_contains w ''```''"
    using nf(1) str_contains_append_right [of w "''```''" "''json''"] unfolding w by blast
  have bw: "CHR ''{'' \<notin> set w"
    using br(1) by (simp add: w)
  have "lead @ ''```'' @ w1 @ p @ w2 @ ''```'' @ trail =
        lead @ ''```json'' @ w @ p @ w2 @ ''```'' @ trail"
    by (simp add: w)
  then show ?thesis
    using extract_json_labelled_any [OF p nw nf(2) bw br(2) sp, of trail] by simp
qed

subsection \<open>The reply in prose\<close>

lemma extract_json_prose:
  assumes p: "p \<noteq> []" "hd p = CHR ''{''" "last p = CHR ''}''"
    and br: "CHR ''{'' \<notin> set pre" "CHR ''}'' \<notin> set post"
    and nf: "\<not> startswith (strip (pre @ p @ post)) ''```''"
  shows "extract_json (pre @ p @ post) = Inr p"
proof -
  have e: "\<not> isspace (hd p)" "\<not> isspace (last p)"
    using p isspace_not by auto
  have s: "strip (pre @ p @ post) = lstrip pre @ p @ rstrip post"
    by (rule strip_around [OF p(1) e])
  have "set (lstrip pre) \<subseteq> set pre"
    unfolding lstrip_def by (rule set_dropWhileD [THEN subsetI])
  with br have l: "CHR ''{'' \<notin> set (lstrip pre)" by blast
  have "set (rstrip post) \<subseteq> set post"
    unfolding rstrip_def using set_dropWhileD [of _ isspace "rev post"] by auto
  with br have r: "CHR ''}'' \<notin> set (rstrip post)" by blast
  have nj: "\<not> startswith (strip (pre @ p @ post)) ''```json''"
    using nf startswith_json_fence by blast
  have cb: "cut_braces (strip (pre @ p @ post)) = p"
    unfolding s by (rule cut_braces_payload [OF p l r])
  show ?thesis
    unfolding extract_json_def Let_def
    by (simp only: nf nj if_False and_then_def sum.case cb)
qed

text \<open>The clean-up itself never raises: a text that starts with a marker splits in two at least.\<close>

lemma extract_json_total: "\<exists>content. extract_json raw = Inr content"
proof -
  have b: "\<exists>block. between_fences c marker = Inr block" if "marker \<noteq> []" "startswith c marker" for c marker
  proof -
    from startswith_decompose [OF that(2)] obtain rest where "c = marker @ rest" ..
    with between_fences_marker [OF that(1), of rest] show ?thesis by simp
  qed
  have j: "\<exists>block. between_fences (strip raw) ''```json'' = Inr block"
    if "startswith (strip raw) ''```json''"
    by (rule b [OF _ that]) simp
  have f: "\<exists>block. between_fences (strip raw) ''```'' = Inr block"
    if "startswith (strip raw) ''```''"
    by (rule b [OF _ that]) simp
  show ?thesis
    using j f by (auto simp: extract_json_def Let_def and_then_def simp del: startswith.simps)
qed

subsection \<open>Claim C3\<close>

text \<open>
  Claim C3, as stated, fails for a payload that mentions the fence marker: the labelled
  branch splits the reply at every occurrence of the marker and keeps what stands before the
  second one, so a payload whose text holds three backticks inside a JSON string is cut there.
  The reply below wraps a well-formed payload in a labelled fence; what is extracted is a
  proper prefix of it.
\<close>

theorem extract_json_fence_in_payload:
  "hd fence_payload = CHR ''{'' \<and> last fence_payload = CHR ''}'' \<and>
   extract_json (''```json'' @ newline @ fence_payload @ newline @ ''```'') =
     Inr ''{\"slides\": [\"Use'' \<and>
   extract_json (''```json'' @ newline @ fence_payload @ newline @ ''```'') \<noteq> Inr fence_payload"
  by (simp add: fence_payload_def newline_def extract_json_def strip_def lstrip_def rstrip_def
      isspace_def between_fences_def split_def and_then_def py_index_def cut_braces_def
      find_def rfind_def slice_def clip_index_def Let_def)

text \<open>
  Claim C3, amended. Let the payload \<open>p\<close> open with a brace and close with one. When the
  reply is white space, an opening fence marker (labelled or not), a text \<open>w1\<close>, the payload, a
  text \<open>w2\<close>, the closing marker and then any text at all, the extraction returns exactly \<open>p\<close>
  provided the payload does not contain the marker, \<open>w1\<close> contains neither the marker nor an
  opening brace, and \<open>w2\<close> contains no closing brace. What follows the closing marker is not
  restricted: it may hold braces and further fences. When \<open>p\<close> stands in prose that has no
  opening brace before it and no closing brace after it, and the trimmed reply does not start
  with a fence marker, the extraction returns exactly \<open>p\<close> as well (here \<open>p\<close> may contain the
  marker).
\<close>

theorem extract_json_recovers_payload:
  assumes "p \<noteq> []" and "hd p = CHR ''{''" and "last p = CHR ''}''"
  shows "(\<not> str_contains p ''```'' \<and> (\<forall>c \<in> set lead. isspace c) \<and>
          CHR ''{'' \<notin> set w1 \<and> \<not> str_contains w1 ''```'' \<and> CHR ''}'' \<notin> set w2 \<longrightarrow>
            extract_json (lead @ ''```json'' @ w1 @ p @ w2 @ ''```'' @ trail) = Inr p \<and>
            extract_json (lead @ ''```'' @ w1 @ p @ w2 @ ''```'' @ trail) = Inr p) \<and>
         (CHR ''{'' \<notin> set pre \<and> CHR ''}'' \<notin> set post \<and>
          \<not> startswith (strip (pre @ p @ post)) ''```'' \<longrightarrow>
            extract_json (pre @ p @ post) = Inr p)"
proof (intro conjI impI)
  assume h: "\<not> str_contains p ''```'' \<and> (\<forall>c \<in> set lead. isspace c) \<and>
    CHR ''{'' \<notin> set w1 \<and> \<not> str_contains w1 ''```'' \<and> CHR ''}'' \<notin> set w2"
  then have nf: "\<not> str_contains w1 ''```''" "\<not> str_contains p ''```''"
    and br: "CHR ''{'' \<notin> set w1" "CHR ''}'' \<notin> set w2"
    and sp: "\<forall>c \<in> set lead. isspace c"
    by blast+
  show "extract_json (lead @ ''```json'' @ w1 @ p @ w2 @ ''```'' @ trail) = Inr p"
    by (rule extract_json_labelled_any [OF assms nf br sp])
  show "extract_json (lead @ ''```'' @ w1 @ p @ w2 @ ''```'' @ trail) = Inr p"
    by (rule extract_json_plain_any [OF assms nf br sp])
next
  assume "CHR ''{'' \<notin> set pre \<and> CHR ''}'' \<notin> set post \<and>
    \<not> startswith (strip (pre @ p @ post)) ''```''"
  then show "extract_json (pre @ p @ post) = Inr p"
    using extract_json_prose [OF assms, of pre post] by blast
qed

theorem extract_json_recovers_payload_witness:
  "extract_json (''```json'' @ newline @ sample_payload @ newline @ ''```'' @ newline @
                 ''Hope this helps! Use {} for an empty deck.'') = Inr sample_payload \<and>
   extract_json (''  ```'' @ newline @ sample_payload @ newline @ ''```'' @ newline @
                 ''Hope this helps! Use {} for an empty deck.'') = Inr sample_payload \<and>
   extract_json (''Here is the deck: '' @ sample_payload @ '' Enjoy it.'') = Inr sample_payload"
proof -
  let ?trail = "newline @ ''Hope this helps! Use {} for an empty deck.''"
  have p: "sample_payload \<noteq> []" "hd sample_payload = CHR ''{''" "last sample_payload = CHR ''}''"
    by (simp_all add: sample_payload_def)
  have nf: "\<not> str_contains sample_payload ''```''"
    by (simp add: sample_payload_def)
  have w: "CHR ''{'' \<notin> set newline" "\<not> str_contains newline ''```''" "CHR ''}'' \<notin> set newline"
    "\<forall>c \<in> set []. isspace c" "\<forall>c \<in> set ''  ''. isspace c"
    by (simp_all add: newline_def isspace_def)
  have pr: "CHR ''{'' \<notin> set ''Here is the deck: ''" "CHR ''}'' \<notin> set '' Enjoy it.''"
    "\<not> startswith (strip (''Here is the deck: '' @ sample_payload @ '' Enjoy it.'')) ''```''"
    by (simp_all add: sample_payload_def strip_def lstrip_def rstrip_def isspace_def)
  from extract_json_recovers_payload [OF p, of "[]" newline newline ?trail "''Here is the deck: ''" "'' Enjoy it.''"]
    nf w pr
  have a: "extract_json (''```json'' @ newline @ sample_payload @ newline @ ''```'' @ ?trail) = Inr sample_payload"
    and c: "extract_json (''Here is the deck: '' @ sample_payload @ '' Enjoy it.'') = Inr sample_payload"
    by simp_all
  from extract_json_recovers_payload [OF p, of "''  ''" newline newline ?trail "[]" "[]"] nf w
  have b: "extract_json (''  ```'' @ newline @ sample_payload @ newline @ ''```'' @ ?trail) = Inr sample_payload"
    by simp
  from a b c show ?thesis by simp
qed

text \<open>
  In the first reply of the instance above the fenced branch is what recovers the payload:
  the cut between the braces alone, applied to the trimmed reply, would run on to the brace
  in the closing sentence.
\<close>

lemma cut_braces_alone_overshoots:
  "cut_braces (strip (''```json'' @ newline @ sample_payload @ newline @ ''```'' @ newline @
                 ''Hope this helps! Use {} for an empty deck.'')) \<noteq> sample_payload"
  by (simp add: sample_payload_def newline_def strip_def lstrip_def rstrip_def isspace_def
      cut_braces_def find_def rfind_def slice_def clip_index_def Let_def)

section \<open>Falling back when the model's reply cannot be used\<close>

lemma request_content_call_raises:
  "chat_completions_create env (client_api_key self) (build_request self topic names) = Inl e \<Longrightarrow>
   request_content env self topic names = Inl e"
  by (simp add: request_content_def and_then_def)

lemma structural_check_fails:
  assumes "field parsed ''slides'' = None \<or> (\<exists>slides. field parsed ''slides'' = Some slides \<and> \<not> truthy slides)"
  shows "\<exists>e. and_then (py_in ''slides'' parsed) (\<lambda>present.
       if \<not> present then Inl ValueError
       else and_then (py_getitem parsed ''slides'') (\<lambda>slides.
         if \<not> truthy slides then Inl ValueError else Inr parsed)) = Inl e"
  using assms by (cases parsed) (auto simp: and_then_def field_def)

lemma request_content_after_call:
  assumes "chat_completions_create env (client_api_key self) (build_request self topic names) = Inr response"
    and "py_index (choices response) 0 = Inr first"
    and "message_content first = Some raw"
    and "extract_json raw = Inr content"
  shows "request_content env self topic names =
     and_then (json_loads env content) (\<lambda>parsed_content.
     and_then (py_in ''slides'' parsed_content) (\<lambda>present.
       if \<not> present then Inl ValueError
       else and_then (py_getitem parsed_content ''slides'') (\<lambda>slides.
         if \<not> truthy slides then Inl ValueError else Inr parsed_content)))"
  using assms by (simp add: request_content_def and_then_def)

lemma fallback_on_error:
  "request_content env self topic names = Inl e \<Longrightarrow>
   generate_presentation_content env self topic names =
     (create_fallback_content self topic names, [ErrorGeneratingContent e])"
  by (simp add: generate_presentation_content_def)

text \<open>Whatever the model and the parser do, the function returns a value.\<close>

lemma generate_presentation_content_total:
  "\<exists>data printed. generate_presentation_content env self topic names = (Inr data, printed)"
  by (cases "request_content env self topic names")
     (simp_all add: generate_presentation_content_def create_fallback_content_eq)

text \<open>
  Claim C1. Whenever the call to the model raises, or the text it returned (cleaned up) does
  not parse as JSON, or the parsed value has no \<open>slides\<close> entry or an empty one (a value
  that is no dictionary has none), \<^verbatim>\<open>generate_presentation_content\<close> prints the error and
  returns what \<^verbatim>\<open>_create_fallback_content\<close> returns for the same topic and sections; and that
  is a value, not an exception.
\<close>

theorem generate_presentation_content_falls_back:
  assumes "chat_completions_create env (client_api_key self) (build_request self topic names) = Inl e1 \<or>
     (chat_completions_create env (client_api_key self) (build_request self topic names) = Inr response \<and>
      py_index (choices response) 0 = Inr first \<and> message_content first = Some raw \<and>
      extract_json raw = Inr content \<and>
      (json_loads env content = Inl e2 \<or>
       (json_loads env content = Inr parsed \<and>
        (field parsed ''slides'' = None \<or>
         (\<exists>slides. field parsed ''slides'' = Some slides \<and> \<not> truthy slides)))))"
  shows "(\<exists>e. generate_presentation_content env self topic names =
            (create_fallback_content self topic names, [ErrorGeneratingContent e])) \<and>
         (\<exists>v. create_fallback_content self topic names = Inr v)"
proof -
  have "\<exists>e. request_content env self topic names = Inl e"
    using assms
  proof (elim disjE conjE)
    assume "chat_completions_create env (client_api_key self) (build_request self topic names) = Inl e1"
    then show ?thesis using request_content_call_raises by blast
  next
    assume a: "chat_completions_create env (client_api_key self) (build_request self topic names) = Inr response"
      "py_index (choices response) 0 = Inr first" "message_content first = Some raw"
      "extract_json raw = Inr content"
      and j: "json_loads env content = Inl e2"
    show ?thesis
      by (simp add: request_content_after_call [OF a] j and_then_def)
  next
    assume a: "chat_completions_create env (client_api_key self) (build_request self topic names) = Inr response"
      "py_index (choices response) 0 = Inr first" "message_content first = Some raw"
      "extract_json raw = Inr content"
      and j: "json_loads env content = Inr parsed"
      and s: "field parsed ''slides'' = None"
    from structural_check_fails [of parsed] s show ?thesis
      by (simp add: request_content_after_call [OF a] j and_then_def)
  next
    assume a: "chat_completions_create env (client_api_key self) (build_request self topic names) = Inr response"
      "py_index (choices response) 0 = Inr first" "message_content first = Some raw"
      "extract_json raw = Inr content"
      and j: "json_loads env content = Inr parsed"
      and s: "\<exists>slides. field parsed ''slides'' = Some slides \<and> \<not> truthy slides"
    from structural_check_fails [of parsed] s show ?thesis
      by (simp add: request_content_after_call [OF a] j and_then_def)
  qed
  then show ?thesis
    using fallback_on_error create_fallback_content_eq by blast
qed

theorem generate_presentation_content_falls_back_witness:
  "(\<exists>e. generate_presentation_content offline_services sample_generator ''Cloud Security'' sample_sections =
      (create_fallback_content sample_generator ''Cloud Security'' sample_sections,
       [ErrorGeneratingContent e])) \<and>
   (\<exists>e. generate_presentation_content deaf_services sample_generator ''Cloud Security'' sample_sections =
      (create_fallback_content sample_generator ''Cloud Security'' sample_sections,
       [ErrorGeneratingContent e])) \<and>
   (\<exists>e. generate_presentation_content
           (scripted_services no_slides_reply
              (PDict [(''title'', PStr ''Cloud Security''), (''slides'', PList [])]))
           sample_generator ''Cloud Security'' sample_sections =
      (create_fallback_content sample_generator ''Cloud Security'' sample_sections,
       [ErrorGeneratingContent e])) \<and>
   (\<exists>v. create_fallback_content sample_generator ''Cloud Security'' sample_sections = Inr v)"
proof -
  have x1: "extract_json no_deck_reply = Inr no_deck_reply"
    by (simp add: no_deck_reply_def extract_json_def strip_def lstrip_def rstrip_def isspace_def
        and_then_def cut_braces_def find_def rfind_def Let_def)
  have x2: "extract_json no_slides_reply = Inr no_slides_reply"
    by (simp add: no_slides_reply_def extract_json_def strip_def lstrip_def rstrip_def isspace_def
        and_then_def cut_braces_def find_def rfind_def slice_def clip_index_def Let_def)
  from generate_presentation_content_falls_back [where env = offline_services
      and self = sample_generator and topic = "''Cloud Security''" and names = sample_sections
      and ?e1.0 = "LibraryError ''APIConnectionError''"]
  have a: "\<exists>e. generate_presentation_content offline_services sample_generator ''Cloud Security'' sample_sections =
      (create_fallback_content sample_generator ''Cloud Security'' sample_sections,
       [ErrorGeneratingContent e])"
    and d: "\<exists>v. create_fallback_content sample_generator ''Cloud Security'' sample_sections = Inr v"
    by (simp_all add: offline_services_def)
  from generate_presentation_content_falls_back [where env = deaf_services
      and self = sample_generator and topic = "''Cloud Security''" and names = sample_sections
      and response = "\<lparr>choices = [\<lparr>message_content = Some no_deck_reply\<rparr>]\<rparr>"
      and first = "\<lparr>message_content = Some no_deck_reply\<rparr>"
      and raw = no_deck_reply and content = no_deck_reply
      and ?e2.0 = "LibraryError ''JSONDecodeError''"]
  have b: "\<exists>e. generate_presentation_content deaf_services sample_generator ''Cloud Security'' sample_sections =
      (create_fallback_content sample_generator ''Cloud Security'' sample_sections,
       [ErrorGeneratingContent e])"
    by (simp add: deaf_services_def scripted_services_def offline_services_def py_index_def x1)
  from generate_presentation_content_falls_back [where
      env = "scripted_services no_slides_reply
              (PDict [(''title'', PStr ''Cloud Security''), (''slides'', PList [])])"
      and self = sample_generator and topic = "''Cloud Security''" and names = sample_sections
      and response = "\<lparr>choices = [\<lparr>message_content = Some no_slides_reply\<rparr>]\<rparr>"
      and first = "\<lparr>message_content = Some no_slides_reply\<rparr>"
      and raw = no_slides_reply and content = no_slides_reply
      and parsed = "PDict [(''title'', PStr ''Cloud Security''), (''slides'', PList [])]"]
  have c: "\<exists>e. generate_presentation_content
           (scripted_services no_slides_reply
              (PDict [(''title'', PStr ''Cloud Security''), (''slides'', PList [])]))
           sample_generator ''Cloud Security'' sample_sections =
      (create_fallback_content sample_generator ''Cloud Security'' sample_sections,
       [ErrorGeneratingContent e])"
    by (simp add: scripted_services_def offline_services_def py_index_def x2 field_def)
  from a b c d show ?thesis by blast
qed

section \<open>Rendering the slides\<close>

text \<open>
  Claim C7. For every string that is not one of the five names of the colour table,
  \<^verbatim>\<open>get_background_color\<close> returns white, \<open>(255, 255, 255)\<close>, and does not raise.
\<close>

theorem get_background_color_default:
  assumes "color_name \<notin> {''blue'', ''light_blue'', ''white'', ''dark'', ''gradient''}"
  shows "get_background_color self (PStr color_name) = Inr (255, 255, 255)"
  using assms by (simp add: get_background_color_def background_colors_def and_then_def)

theorem get_background_color_default_witness:
  "get_background_color sample_generator (PStr ''purple'') = Inr (255, 255, 255)"
  using get_background_color_default [of "''purple''" sample_generator] by simp

text \<open>
  Claim C9. For a descriptor (a dictionary) whose \<open>slide_type\<close> is absent, or is any value
  other than the strings \<open>title\<close> and \<open>summary\<close>, \<^verbatim>\<open>create_slide\<close> is the content-slide builder
  applied to the same descriptor and index; and reading the type with its default does not
  raise.
\<close>

theorem create_slide_dispatch:
  assumes "field (PDict d) ''slide_type'' \<noteq> Some (PStr ''title'')"
    and "field (PDict d) ''slide_type'' \<noteq> Some (PStr ''summary'')"
  shows "create_slide env self (PDict d) slide_index = create_content_slide env self (PDict d) slide_index \<and>
         (\<exists>slide_type. py_get (PDict d) ''slide_type'' (PStr ''section'') = Inr slide_type)"
  using assms
  by (auto simp: create_slide_def bind_cmd_def lift_def field_def split: option.splits)

theorem create_slide_dispatch_witness:
  "create_slide offline_services sample_generator
     (PDict [(''slide_type'', PStr ''chart''), (''title'', PStr ''Revenue'')]) 2 =
   create_content_slide offline_services sample_generator
     (PDict [(''slide_type'', PStr ''chart''), (''title'', PStr ''Revenue'')]) 2 \<and>
   create_slide offline_services sample_generator (PDict [(''title'', PStr ''Revenue'')]) 2 =
   create_content_slide offline_services sample_generator (PDict [(''title'', PStr ''Revenue'')]) 2"
  using create_slide_dispatch [of "[(''slide_type'', PStr ''chart''), (''title'', PStr ''Revenue'')]"
      offline_services sample_generator 2]
    create_slide_dispatch [of "[(''title'', PStr ''Revenue'')]" offline_services sample_generator 2]
  by (simp add: field_def)

subsection \<open>What a builder leaves untouched\<close>

lemma keeps_unit: "keeps (unit_cmd x)"
  by (simp add: keeps_def unit_cmd_def)

lemma keeps_raise: "keeps (raise e)"
  by (simp add: keeps_def raise_def)

lemma keeps_lift: "keeps (lift r)"
  by (simp add: keeps_def lift_def)

lemma keeps_bind: "keeps m \<Longrightarrow> (\<And>x. keeps (f x)) \<Longrightarrow> keeps (bind_cmd m f)"
  by (auto simp: keeps_def bind_cmd_def split: prod.splits sum.splits) (metis snd_conv)+

lemma keeps_try: "keeps m \<Longrightarrow> (\<And>e. keeps (h e)) \<Longrightarrow> keeps (try_except m h)"
  by (auto simp: keeps_def try_except_def split: prod.splits sum.splits) (metis snd_conv)+

lemma keeps_if: "keeps a \<Longrightarrow> keeps b \<Longrightarrow> keeps (if c then a else b)"
  by simp

lemma keeps_option: "keeps a \<Longrightarrow> (\<And>y. keeps (b y)) \<Longrightarrow> keeps (case x of None \<Rightarrow> a | Some y \<Rightarrow> b y)"
  by (cases x) simp_all

lemma keeps_print_line: "keeps (print_line p)"
  by (simp add: keeps_def print_line_def modify_def frame_def)

lemma keeps_layout_at: "keeps (layout_at k)"
  by (simp add: keeps_def layout_at_def)

lemma keeps_current_slide: "keeps current_slide"
  by (simp add: keeps_def current_slide_def)

lemma length_update_last: "length (update_last f xs) = length xs"
  by (simp add: update_last_def)

lemma keeps_update_slide: "keeps (update_slide f)"
  by (simp add: keeps_def update_slide_def modify_def frame_def length_update_last)

lemma keeps_update_shape: "keeps (update_shape k f)"
  by (simp add: update_shape_def keeps_update_slide)

lemma keeps_set_shape_text: "keeps (set_shape_text k v)"
  by (cases v) (simp_all add: set_shape_text_def keeps_update_shape keeps_raise)

lemma keeps_set_paragraph_text: "keeps (set_paragraph_text k v)"
  by (cases v) (simp_all add: set_paragraph_text_def update_paragraph_def keeps_update_shape keeps_raise)

lemmas keeps_intros = keeps_unit keeps_raise keeps_lift keeps_bind keeps_try keeps_if keeps_option
  keeps_print_line keeps_layout_at keeps_current_slide keeps_update_slide keeps_update_shape
  keeps_set_shape_text keeps_set_paragraph_text

lemma keeps_set_title_text: "keeps (set_title_text v)"
  unfolding set_title_text_def by (intro keeps_intros)

lemma keeps_paint_background: "keeps (paint_background self slide_data dflt)"
  unfolding paint_background_def fill_solid_def set_fore_color_def by (intro keeps_intros)

lemma keeps_update_first_paragraph: "keeps (update_first_paragraph k f)"
  unfolding update_first_paragraph_def by (intro keeps_intros)

lemma keeps_paragraph_ops:
  "keeps (text_frame_clear k)" "keeps (add_paragraph k)" "keeps (update_paragraph k f)"
  unfolding text_frame_clear_def add_paragraph_def update_paragraph_def by (intro keeps_intros)+

lemma keeps_content_bullets: "keeps (content_bullets i bullets)"
  by (induction bullets arbitrary: i)
     (simp_all add: keeps_intros keeps_paragraph_ops)

lemma keeps_summary_bullets: "keeps (summary_bullets i bullets)"
  by (induction bullets arbitrary: i)
     (simp_all add: keeps_intros keeps_paragraph_ops)

lemma keeps_add_picture: "keeps (add_picture env path l t wd h)"
  unfolding add_picture_def by (intro keeps_intros)

lemma keeps_os_unlink: "keeps (os_unlink env path)"
  unfolding os_unlink_def by (intro keeps_intros)

lemmas keeps_all = keeps_intros keeps_set_title_text keeps_paint_background
  keeps_update_first_paragraph keeps_paragraph_ops keeps_content_bullets keeps_summary_bullets
  keeps_add_picture keeps_os_unlink

text \<open>A builder: the layout, the new slide, and then changes to that slide only.\<close>

lemma builder_frame:
  assumes "\<And>l. keeps (f l)" and "k < length (slide_layouts (document w))"
  shows "frame (snd (bind_cmd (layout_at k) (\<lambda>l. bind_cmd (add_slide l) (\<lambda>_. f l)) w)) =
         (slide_width (document w), slide_height (document w), slide_layouts (document w),
          Suc (length (pres_slides (document w))), saved_files w)"
proof -
  define l where "l = slide_layouts (document w) ! k"
  define w1 where "w1 = snd (add_slide l w)"
  have 1: "layout_at k w = (Inr l, w)"
    using assms(2) by (simp add: layout_at_def py_index_def l_def)
  have 2: "add_slide l w = (Inr (), w1)"
    by (simp add: w1_def add_slide_def modify_def)
  have 3: "frame w1 = (slide_width (document w), slide_height (document w), slide_layouts (document w),
          Suc (length (pres_slides (document w))), saved_files w)"
    by (simp add: w1_def add_slide_def modify_def frame_def)
  have "bind_cmd (layout_at k) (\<lambda>l. bind_cmd (add_slide l) (\<lambda>_. f l)) w = f l w1"
    by (simp add: bind_cmd_def 1 2)
  with assms(1) [of l] 3 show ?thesis by (simp add: keeps_def)
qed

lemma create_title_slide_frame:
  assumes "2 \<le> length (slide_layouts (document w))"
  shows "frame (snd (create_title_slide self slide_data w)) =
         (slide_width (document w), slide_height (document w), slide_layouts (document w),
          Suc (length (pres_slides (document w))), saved_files w)"
  unfolding create_title_slide_def
  by (rule builder_frame) (use assms in \<open>auto intro!: keeps_all\<close>)

lemma create_summary_slide_frame:
  assumes "2 \<le> length (slide_layouts (document w))"
  shows "frame (snd (create_summary_slide self slide_data w)) =
         (slide_width (document w), slide_height (document w), slide_layouts (document w),
          Suc (length (pres_slides (document w))), saved_files w)"
  unfolding create_summary_slide_def
  by (rule builder_frame) (use assms in \<open>auto intro!: keeps_all\<close>)

lemma create_content_slide_frame:
  assumes "2 \<le> length (slide_layouts (document w))"
  shows "frame (snd (create_content_slide env self slide_data i w)) =
         (slide_width (document w), slide_height (document w), slide_layouts (document w),
          Suc (length (pres_slides (document w))), saved_files w)"
  unfolding create_content_slide_def
  by (rule builder_frame) (use assms in \<open>auto intro!: keeps_all\<close>)

lemma create_slide_frame:
  assumes "2 \<le> length (slide_layouts (document w))"
  shows "frame (snd (create_slide env self slide_data i w)) =
         (slide_width (document w), slide_height (document w), slide_layouts (document w),
          length (pres_slides (document w)) + (if is_dict slide_data then 1 else 0), saved_files w)"
proof (cases "is_dict slide_data")
  case True
  then obtain d where d: "slide_data = PDict d"
    by (cases slide_data) (simp_all add: is_dict_def)
  show ?thesis
    using create_title_slide_frame [OF assms] create_summary_slide_frame [OF assms]
      create_content_slide_frame [OF assms]
    by (simp add: d is_dict_def create_slide_def bind_cmd_def lift_def)
next
  case False
  then have "py_get slide_data ''slide_type'' (PStr ''section'') = Inl AttributeError"
    by (cases slide_data) (simp_all add: is_dict_def)
  with False show ?thesis
    by (simp add: create_slide_def bind_cmd_def lift_def frame_def)
qed

subsection \<open>The loop over the descriptors\<close>

text \<open>One turn of the loop: the exception is caught, printed, and the loop goes on.\<close>

lemma slide_loop_step:
  "slide_loop env self i (slide_data # rest) w =
   slide_loop env self (Suc i) rest
     (case create_slide env self slide_data i w of
        (Inr u, w') \<Rightarrow> w'
      | (Inl e, w') \<Rightarrow> w'\<lparr>stdout := stdout w' @ [ErrorCreatingSlide (i + 1) e]\<rparr>)"
  by (simp add: bind_cmd_def try_except_def print_line_def modify_def split: prod.splits sum.splits)

lemma slide_loop_frame:
  assumes "2 \<le> length (slide_layouts (document w))"
  shows "fst (slide_loop env self i descriptors w) = Inr () \<and>
         frame (snd (slide_loop env self i descriptors w)) =
           (slide_width (document w), slide_height (document w), slide_layouts (document w),
            length (pres_slides (document w)) + length (filter is_dict descriptors), saved_files w)"
  using assms
proof (induction descriptors arbitrary: w i)
  case Nil
  show ?case by (simp add: unit_cmd_def frame_def)
next
  case (Cons d ds)
  define w1 where "w1 = (case create_slide env self d i w of
        (Inr u, w') \<Rightarrow> w'
      | (Inl e, w') \<Rightarrow> w'\<lparr>stdout := stdout w' @ [ErrorCreatingSlide (i + 1) e]\<rparr>)"
  have "frame w1 = frame (snd (create_slide env self d i w))"
    by (simp add: w1_def frame_def split: prod.splits sum.splits)
  with create_slide_frame [OF Cons.prems, of env self d i]
  have f: "frame w1 = (slide_width (document w), slide_height (document w), slide_layouts (document w),
          length (pres_slides (document w)) + (if is_dict d then 1 else 0), saved_files w)"
    by simp
  then have l: "2 \<le> length (slide_layouts (document w1))"
    using Cons.prems by (simp add: frame_def)
  have s: "slide_loop env self i (d # ds) w = slide_loop env self (Suc i) ds w1"
    unfolding w1_def by (rule slide_loop_step)
  from Cons.IH [OF l, of "Suc i"] f show ?case
    unfolding s by (simp add: frame_def)
qed

lemma slide_loop_append:
  "slide_loop env self i (xs @ ys) =
   bind_cmd (slide_loop env self i xs) (\<lambda>_. slide_loop env self (i + length xs) ys)"
proof (induction xs arbitrary: i)
  case Nil
  show ?case by (simp add: bind_cmd_def unit_cmd_def)
next
  case (Cons x xs)
  show ?case
    by (simp add: Cons.IH [of "Suc i"] bind_cmd_def fun_eq_iff split: prod.splits sum.splits)
qed

text \<open>
  \<^verbatim>\<open>create_powerpoint\<close> on a list of descriptors: the loop ends without an exception whatever
  the descriptors are, and then the document is saved, or the error of \<^verbatim>\<open>save\<close> is raised.
\<close>

lemma create_powerpoint_outcome:
  assumes "py_getitem presentation_data ''slides'' = Inr (PList descriptors)"
  shows "\<exists>w1. create_powerpoint env self presentation_data output_path w =
           (case save_error env output_path of
              None \<Rightarrow> (Inr (), w1\<lparr>saved_files := (output_path, document w1) # saved_files w\<rparr>)
            | Some e \<Rightarrow> (Inl e, w1)) \<and>
         length (pres_slides (document w1)) = length (filter is_dict descriptors) \<and>
         slide_width (document w1) = 9144000 \<and> slide_height (document w1) = 6858000"
proof -
  define w0 where "w0 = w\<lparr>document := default_presentation
      \<lparr>slide_width := Inches 10, slide_height := Inches (75 / 10)\<rparr>\<rparr>"
  define w1 where "w1 = snd (slide_loop env self 0 descriptors w0)"
  have l: "2 \<le> length (slide_layouts (document w0))"
    by (simp add: w0_def default_presentation_def)
  from slide_loop_frame [OF l, of env self 0 descriptors]
  have r: "slide_loop env self 0 descriptors w0 = (Inr (), w1)"
    and f: "frame w1 = (slide_width (document w0), slide_height (document w0),
        slide_layouts (document w0),
        length (pres_slides (document w0)) + length (filter is_dict descriptors), saved_files w0)"
    by (simp_all add: w1_def prod_eq_iff)
  from f have s: "saved_files w1 = saved_files w"
    and n: "length (pres_slides (document w1)) = length (filter is_dict descriptors)"
    and p: "slide_width (document w1) = 9144000" "slide_height (document w1) = 6858000"
    by (simp_all add: frame_def w0_def default_presentation_def Inches_def)
  have "create_powerpoint env self presentation_data output_path w =
      (case save_error env output_path of
         None \<Rightarrow> (Inr (), w1\<lparr>saved_files := (output_path, document w1) # saved_files w\<rparr>)
       | Some e \<Rightarrow> (Inl e, w1))"
    using assms r s
    by (simp add: create_powerpoint_def bind_cmd_def modify_def lift_def save_def raise_def w0_def
        split: option.splits)
  with n p show ?thesis by blast
qed

lemmas cmd_defs = bind_cmd_def try_except_def unit_cmd_def raise_def lift_def modify_def
  print_line_def layout_at_def add_slide_def update_slide_def update_last_def current_slide_def
  update_shape_def fill_solid_def set_fore_color_def set_shape_text_def set_title_text_def
  update_first_paragraph_def text_frame_clear_def add_paragraph_def update_paragraph_def
  set_paragraph_text_def paint_background_def save_def

subsection \<open>Claim C5\<close>




text \<open>What is printed for the list of the instance above: the first two descriptors fail.\<close>

lemma mixed_deck_log:
  "stdout (snd (create_powerpoint offline_services sample_generator mixed_deck ''deck.pptx'' empty_world)) =
     [ErrorCreatingSlide 1 (KeyError ''title''), ErrorCreatingSlide 2 AttributeError]"
  by (simp add: create_powerpoint_def mixed_deck_def create_slide_def create_title_slide_def
      create_content_slide_def download_image_def
      cmd_defs empty_world_def default_presentation_def py_index_def get_background_color_def
      background_colors_def and_then_def offline_services_def Inches_def numeral_2_eq_2
      empty_shape_def empty_paragraph_def newline_def Let_def)

subsection \<open>Claim C4\<close>

text \<open>
  The page is 10 by 7.5 inches (9144000 by 6858000 EMU) whatever the content is, and the
  number of slides is the number of dictionaries in the content's slide list. On the path that
  uses the fallback content that number is the number of sections plus two.
\<close>

lemma is_dict_section_slides: "filter is_dict (section_slides topic i names) = section_slides topic i names"
  by (induction names arbitrary: i) (simp_all add: is_dict_def section_slide_def)

lemma fallback_deck_slide_count:
  assumes "request_content env self topic names = Inl e"
    and "save_error env path = None" and "path \<noteq> []"
  shows "\<exists>w1. create_presentation env self topic names (Some path) w =
           (Inr path, w1\<lparr>saved_files := (path, document w1) # saved_files w\<rparr>) \<and>
         length (pres_slides (document w1)) = length names + 2 \<and>
         slide_width (document w1) = 9144000 \<and> slide_height (document w1) = 6858000"
proof -
  let ?slides = "title_slide topic # section_slides topic 0 names @ [summary_slide]"
  let ?data = "PDict [(''title'', PStr topic), (''slides'', PList ?slides)]"
  let ?w = "w\<lparr>stdout := stdout w @ [ErrorGeneratingContent e]\<rparr>"
  have g: "generate_presentation_content env self topic names = (Inr ?data, [ErrorGeneratingContent e])"
    by (simp add: fallback_on_error [OF assms(1)] create_fallback_content_eq)
  have d: "py_getitem ?data ''slides'' = Inr (PList ?slides)"
    by simp
  have k: "length (filter is_dict ?slides) = length names + 2"
    by (simp add: is_dict_section_slides length_section_slides)
       (simp add: is_dict_def title_slide_def summary_slide_def)
  from create_powerpoint_outcome [OF d, of env self path ?w] assms(2) k
  obtain w1 where c: "create_powerpoint env self ?data path ?w =
      (Inr (), w1\<lparr>saved_files := (path, document w1) # saved_files w\<rparr>)"
    and n: "length (pres_slides (document w1)) = length names + 2"
    and p: "slide_width (document w1) = 9144000" "slide_height (document w1) = 6858000"
    by auto
  have "create_presentation env self topic names (Some path) w =
      (Inr path, w1\<lparr>saved_files := (path, document w1) # saved_files w\<rparr>)"
    using assms(3) by (simp add: create_presentation_def g bind_cmd_def unit_cmd_def c Let_def)
  with n p show ?thesis by blast
qed

text \<open>The content when the model answers with \<open>sample_payload\<close>: the reply itself.\<close>

lemma scripted_content:
  "generate_presentation_content (scripted_services sample_payload short_deck) sample_generator
     ''Cloud Security'' sample_sections = (Inr short_deck, [])"
proof -
  have x: "extract_json sample_payload = Inr sample_payload"
    by (simp add: sample_payload_def extract_json_def strip_def lstrip_def rstrip_def isspace_def
        and_then_def cut_braces_def find_def rfind_def slice_def clip_index_def Let_def)
  show ?thesis
    by (simp add: generate_presentation_content_def request_content_def scripted_services_def
        offline_services_def and_then_def py_index_def x short_deck_def)
qed

text \<open>
  Claim C4 does not hold of the path that uses the model's reply: the slide list of the reply
  is rendered as it is, and nothing compares its length with the number of sections. For the
  topic \<open>Cloud Security\<close> and the three sections \<open>Overview\<close>, \<open>Threats\<close>, \<open>Defenses\<close>, a reply
  whose slide list holds a single title slide passes the structural check; the saved document
  has the page size 9144000 by 6858000 EMU and one slide, where the claim requires five, the
  number the form shows as \<^verbatim>\<open>Total Slides\<close>.
\<close>

theorem slide_count_follows_reply:
  "fst (create_presentation (scripted_services sample_payload short_deck) sample_generator
          ''Cloud Security'' sample_sections (Some ''deck.pptx'') empty_world) = Inr ''deck.pptx'' \<and>
   map (\<lambda>(name, d). (name, length (pres_slides d), slide_width d, slide_height d))
     (saved_files (snd (create_presentation (scripted_services sample_payload short_deck)
        sample_generator ''Cloud Security'' sample_sections (Some ''deck.pptx'') empty_world))) =
     [(''deck.pptx'', 1, 9144000, 6858000)] \<and>
   total_slides_metric sample_sections = 5"
  by (simp add: create_presentation_def scripted_content Let_def)
     (simp add: create_powerpoint_def short_deck_def create_slide_def create_title_slide_def
      cmd_defs empty_world_def default_presentation_def py_index_def get_background_color_def
      background_colors_def and_then_def offline_services_def scripted_services_def Inches_def
      numeral_2_eq_2 total_slides_metric_def sample_sections_def
      empty_shape_def empty_paragraph_def newline_def)

section \<open>The form: validation and the generating flag\<close>

text \<open>
  Claim C6. The submit button is enabled exactly when the trimmed topic has at least three
  characters, the trimmed API key has at least ten, every section title is non-blank after
  trimming, and no generation is in progress. In particular it is disabled whenever some
  section title is blank, whatever the topic and the key are.
\<close>

theorem submit_enabled_iff:
  "((\<not> submit_disabled st topic api_key content_sections) =
      (3 \<le> length (strip topic) \<and> 10 \<le> length (strip api_key) \<and>
       (\<forall>s \<in> set content_sections. strip s \<noteq> []) \<and> \<not> generating st)) \<and>
   ((\<exists>s \<in> set content_sections. strip s = []) \<longrightarrow> submit_disabled st topic api_key content_sections)"
proof -
  have e: "strip [] = []" by (simp add: strip_def lstrip_def rstrip_def)
  have t: "3 \<le> length (strip topic) \<Longrightarrow> topic \<noteq> []" using e by auto
  have k: "10 \<le> length (strip api_key) \<Longrightarrow> api_key \<noteq> []" using e by auto
  show ?thesis
    using t k by (auto simp: submit_disabled_def is_valid_def list_all_iff)
qed

theorem submit_enabled_iff_witness:
  "\<not> submit_disabled \<lparr>presentation_generated = False, session_content_sections = sample_sections,
       generating = False, generated_file_path = None\<rparr>
     ''Cloud Security'' ''gsk_0123456789'' sample_sections \<and>
   submit_disabled \<lparr>presentation_generated = False, session_content_sections = sample_sections,
       generating = False, generated_file_path = None\<rparr>
     ''Cloud Security'' ''gsk_0123456789'' [''Overview'', ''  '', ''Defenses'']"
proof -
  let ?st = "\<lparr>presentation_generated = False, session_content_sections = sample_sections,
       generating = False, generated_file_path = None\<rparr>"
  have s: "length (strip ''Cloud Security'') = 14" "length (strip ''gsk_0123456789'') = 14"
    "strip ''Overview'' = ''Overview''" "strip ''Threats'' = ''Threats''"
    "strip ''Defenses'' = ''Defenses''" "strip ''  '' = []"
    by (simp_all add: strip_def lstrip_def rstrip_def isspace_def)
  from submit_enabled_iff [of ?st "''Cloud Security''" "''gsk_0123456789''" sample_sections]
  have a: "\<not> submit_disabled ?st ''Cloud Security'' ''gsk_0123456789'' sample_sections"
    by (simp add: s sample_sections_def)
  from submit_enabled_iff [of ?st "''Cloud Security''" "''gsk_0123456789''" "[''Overview'', ''  '', ''Defenses'']"]
  have b: "submit_disabled ?st ''Cloud Security'' ''gsk_0123456789'' [''Overview'', ''  '', ''Defenses'']"
    by (simp add: s)
  from a b show ?thesis by blast
qed

text \<open>
  \<^verbatim>\<open>generate_presentation\<close> on the two paths: the name of the file when \<^verbatim>\<open>create_presentation\<close>
  returns, \<^verbatim>\<open>None\<close> and the error shown when it raises.
\<close>

lemma generate_presentation_paths:
  "generate_presentation env topic content_sections api_key model_name a =
     (case create_presentation env \<lparr>client_api_key = api_key, self_model_name = model_name\<rparr> topic
             content_sections
             (Some (''professional_'' @ replace topic '' '' ''_'' @ ''_'' @ datetime_now env @ ''.pptx''))
             (machine a) of
        (Inr output_path, w) \<Rightarrow>
          (Some output_path,
           a\<lparr>machine := w,
             session := (session a)\<lparr>presentation_generated := True,
               generated_file_path := Some output_path, generating := False\<rparr>\<rparr>)
      | (Inl e, w) \<Rightarrow>
          (None,
           a\<lparr>machine := w, session := (session a)\<lparr>generating := False\<rparr>,
             shown_errors := shown_errors a @ [e]\<rparr>))"
  by (simp add: generate_presentation_def Let_def split: prod.splits sum.splits)

text \<open>
  Claim C10. \<^verbatim>\<open>generate_presentation\<close> returns with the \<open>generating\<close> flag of the session
  \<open>False\<close>, always: when it returns a path, which is the path \<^verbatim>\<open>create_presentation\<close> returned,
  and when it returns \<^verbatim>\<open>None\<close>, which it does exactly when \<^verbatim>\<open>create_presentation\<close> raised.
\<close>

theorem generate_presentation_resets_generating:
  "generating (session (snd (generate_presentation env topic content_sections api_key model_name a))) = False \<and>
   (case fst (generate_presentation env topic content_sections api_key model_name a) of
      Some output_path \<Rightarrow>
        fst (create_presentation env \<lparr>client_api_key = api_key, self_model_name = model_name\<rparr> topic
               content_sections
               (Some (''professional_'' @ replace topic '' '' ''_'' @ ''_'' @ datetime_now env @ ''.pptx''))
               (machine a)) = Inr output_path
    | None \<Rightarrow>
        isl (fst (create_presentation env \<lparr>client_api_key = api_key, self_model_name = model_name\<rparr> topic
               content_sections
               (Some (''professional_'' @ replace topic '' '' ''_'' @ ''_'' @ datetime_now env @ ''.pptx''))
               (machine a))))"
  by (simp add: generate_presentation_def Let_def split: prod.splits sum.splits)

theorem generate_presentation_resets_generating_witness:
  "generating (session (snd (generate_presentation offline_services ''Cloud Security'' sample_sections
      ''gsk_0123456789'' ''llama-3.1-8b-instant''
      (sample_app\<lparr>session := (session sample_app)\<lparr>generating := True\<rparr>\<rparr>)))) = False \<and>
   generating (session (snd (generate_presentation readonly_services ''Cloud Security'' sample_sections
      ''gsk_0123456789'' ''llama-3.1-8b-instant'' sample_app))) = False"
  using generate_presentation_resets_generating [of offline_services "''Cloud Security''"
      sample_sections "''gsk_0123456789''" "''llama-3.1-8b-instant''"
      "sample_app\<lparr>session := (session sample_app)\<lparr>generating := True\<rparr>\<rparr>"]
    generate_presentation_resets_generating [of readonly_services "''Cloud Security''"
      sample_sections "''gsk_0123456789''" "''llama-3.1-8b-instant''" sample_app]
  by blast


end
